theory Spec2Isabelle
  imports Complex_Main "HOL-Library.Word"
begin

section \<open>Shadow-RC: platform primitives\<close>

text \<open>
  The target is an Arduino Mega (AVR): \<open>int\<close> is 16 bits, \<open>unsigned long\<close> is 32 bits.
  Timestamps (\<open>millis()\<close>, \<open>micros()\<close>) are \<open>32 word\<close>, so that subtraction wraps as
  the C code's does. Quantities that the code keeps inside a small range by clamping
  (mapped stick values, combo ids, speeds) are \<open>int\<close>. Values of type \<open>float\<close> are
  modelled by real numbers (exact arithmetic), and the conversion \<open>(int)\<close> by truncation
  toward zero. Serial debug output is not modelled.
\<close>

type_synonym u32 = "32 word"
type_synonym i16 = "16 word"

text \<open>The Arduino macro \<open>constrain(x, a, b)\<close>.\<close>

definition constrain :: "int \<Rightarrow> int \<Rightarrow> int \<Rightarrow> int" where
  "constrain x a b = (if x < a then a else if x > b then b else x)"

text \<open>C integer division truncates toward zero.\<close>

definition c_div :: "int \<Rightarrow> int \<Rightarrow> int" where
  "c_div a b = sgn a * sgn b * (\<bar>a\<bar> div \<bar>b\<bar>)"

text \<open>The Arduino core function \<open>map(x, in_min, in_max, out_min, out_max)\<close> (long arithmetic).\<close>

definition map_arduino :: "int \<Rightarrow> int \<Rightarrow> int \<Rightarrow> int \<Rightarrow> int \<Rightarrow> int" where
  "map_arduino x in_min in_max out_min out_max =
     c_div ((x - in_min) * (out_max - out_min)) (in_max - in_min) + out_min"

text \<open>The conversion of a float to an integer type: the fractional part is discarded.\<close>

definition c_trunc :: "real \<Rightarrow> int" where
  "c_trunc r = (if 0 \<le> r then \<lfloor>r\<rfloor> else \<lceil>r\<rceil>)"

text \<open>
  The C library function \<open>pow\<close> on a non-negative base: \<open>pow(x, 0)\<close> is 1 for every
  \<open>x\<close> (also for \<open>x = 0\<close>), \<open>pow(0, y)\<close> is 0 for \<open>y > 0\<close>.
\<close>

definition c_pow :: "real \<Rightarrow> real \<Rightarrow> real" where
  "c_pow x y = (if y = 0 then 1 else x powr y)"

section \<open>Pulse Decoder (PWMInputHandler.cpp)\<close>

text \<open>
  The three channel values are \<open>volatile int\<close>, the start timestamps
  \<open>volatile unsigned long\<close>. Each interrupt handler receives the value of \<open>micros()\<close>
  it reads. The assignment of the \<open>unsigned long\<close> difference to the \<open>int\<close> channel value
  keeps the low 16 bits.
\<close>

record pwm_inputs =
  ch1_value :: i16
  ch2_value :: i16
  ch1b_value :: i16
  ch1_start :: u32
  ch2_start :: u32
  ch1b_start :: u32

definition pwm_init :: pwm_inputs where
  "pwm_init = \<lparr>ch1_value = 1500, ch2_value = 1500, ch1b_value = 1500,
               ch1_start = 0, ch2_start = 0, ch1b_start = 0\<rparr>"

definition getPWMValue_CH1A :: "pwm_inputs \<Rightarrow> int" where
  "getPWMValue_CH1A s = sint (ch1_value s)"

definition getPWMValue_CH2A :: "pwm_inputs \<Rightarrow> int" where
  "getPWMValue_CH2A s = sint (ch2_value s)"

definition getPWMValue_CH1B :: "pwm_inputs \<Rightarrow> int" where
  "getPWMValue_CH1B s = sint (ch1b_value s)"

definition ch1_rise :: "u32 \<Rightarrow> pwm_inputs \<Rightarrow> pwm_inputs" where
  "ch1_rise micros s = s\<lparr>ch1_start := micros\<rparr>"

definition ch1_fall :: "u32 \<Rightarrow> pwm_inputs \<Rightarrow> pwm_inputs" where
  "ch1_fall micros s = s\<lparr>ch1_value := ucast (micros - ch1_start s)\<rparr>"

definition ch2_rise :: "u32 \<Rightarrow> pwm_inputs \<Rightarrow> pwm_inputs" where
  "ch2_rise micros s = s\<lparr>ch2_start := micros\<rparr>"

definition ch2_fall :: "u32 \<Rightarrow> pwm_inputs \<Rightarrow> pwm_inputs" where
  "ch2_fall micros s = s\<lparr>ch2_value := ucast (micros - ch2_start s)\<rparr>"

definition ch1b_rise :: "u32 \<Rightarrow> pwm_inputs \<Rightarrow> pwm_inputs" where
  "ch1b_rise micros s = s\<lparr>ch1b_start := micros\<rparr>"

definition ch1b_fall :: "u32 \<Rightarrow> pwm_inputs \<Rightarrow> pwm_inputs" where
  "ch1b_fall micros s = s\<lparr>ch1b_value := ucast (micros - ch1b_start s)\<rparr>"

section \<open>Mode/Combo Recognizer (ComboHandler.cpp)\<close>

definition HIGH :: int where "HIGH = 1"
definition LOW :: int where "LOW = 0"

definition HIGH_THRESHOLD :: int where "HIGH_THRESHOLD = 1700"
definition LOW_THRESHOLD :: int where "LOW_THRESHOLD = 1300"
definition COMBO_DOWN_MIN :: int where "COMBO_DOWN_MIN = 900"
definition COMBO_DOWN_MAX :: int where "COMBO_DOWN_MAX = 1300"
definition COMBO_UP_MIN :: int where "COMBO_UP_MIN = 1700"
definition COMBO_UP_MAX :: int where "COMBO_UP_MAX = 2100"
definition COMBO_LEFT_MAX :: int where "COMBO_LEFT_MAX = 1300"
definition COMBO_RIGHT_MIN :: int where "COMBO_RIGHT_MIN = 1700"
definition comboResetDelay :: u32 where "comboResetDelay = 1000"

text \<open>The four latches of one momentary button (CH6), one per joystick direction.\<close>

record trig_flags =
  trigDown :: bool
  trigUp :: bool
  trigLeft :: bool
  trigRight :: bool

definition no_trig :: trig_flags where
  "no_trig = \<lparr>trigDown = False, trigUp = False, trigLeft = False, trigRight = False\<rparr>"

text \<open>
  The globals of ComboHandler.cpp, with \<open>mp3TriggersEnabled\<close> of MP3Handler.cpp (written
  by \<open>disableMP3Triggers\<close> and \<open>enableMP3Triggers\<close>) and the command strings printed to
  the MarcDuino serial port, oldest first.
\<close>

record combo_state =
  currentCombo :: int
  currentMode :: int
  lastCombo :: int
  lastMode :: int
  comboTimestamp :: u32
  last_CH3 :: int
  last_CH4 :: int
  last_CH5 :: int
  last_CH3B :: int
  last_CH4B :: int
  last_CH5B :: int
  hasTriggered_CH6_A :: trig_flags
  hasTriggered_CH6_B :: trig_flags
  mp3TriggersEnabled :: bool
  marcduino_out :: "string list"

definition combo_init :: combo_state where
  "combo_init = \<lparr>currentCombo = 0, currentMode = 1, lastCombo = 0, lastMode = 0,
     comboTimestamp = 0,
     last_CH3 = -1, last_CH4 = -1, last_CH5 = -1,
     last_CH3B = -1, last_CH4B = -1, last_CH5B = -1,
     hasTriggered_CH6_A = no_trig, hasTriggered_CH6_B = no_trig,
     mp3TriggersEnabled = True, marcduino_out = []\<rparr>"

text \<open>
  What one call of \<open>updateComboHandler\<close> reads: the twelve \<open>pulseIn\<close> widths (0 on
  timeout) and the two values of \<open>millis()\<close>, the first where the combo is stamped and
  the second in the watchdog test.
\<close>

record combo_inputs =
  ch1a_pwm :: int
  ch2a_pwm :: int
  ch1b_pwm :: int
  ch2b_pwm :: int
  pwm_CH3 :: int
  pwm_CH4 :: int
  pwm_CH5 :: int
  pwm_CH6 :: int
  pwm_CH3B :: int
  pwm_CH4B :: int
  pwm_CH5B :: int
  pwm_CH6B :: int
  millis_stamp :: u32
  millis_watchdog :: u32

text \<open>\<open>detectToggleCombo\<close> returns the new \<open>lastState\<close> and the new \<open>currentCombo\<close>.\<close>

definition detectToggleCombo ::
  "int \<Rightarrow> int \<Rightarrow> int \<Rightarrow> bool \<Rightarrow> bool \<Rightarrow> bool \<Rightarrow> bool \<Rightarrow> int \<Rightarrow> int \<times> int" where
  "detectToggleCombo pwm lastState baseCombo down up left right cur =
     (if pwm > 0 then
        (let state = (if pwm > HIGH_THRESHOLD then HIGH else LOW) in
         if state \<noteq> lastState then
           (state,
            if down then baseCombo
            else if up then baseCombo + 4
            else if left then baseCombo + 8
            else if right then baseCombo + 12
            else cur)
         else (lastState, cur))
      else (lastState, cur))"

text \<open>\<open>detectMomentaryCombo\<close> returns the new latches and the new \<open>currentCombo\<close>.\<close>

definition detectMomentaryCombo ::
  "int \<Rightarrow> trig_flags \<Rightarrow> int \<Rightarrow> bool \<Rightarrow> bool \<Rightarrow> bool \<Rightarrow> bool \<Rightarrow> int \<Rightarrow> trig_flags \<times> int" where
  "detectMomentaryCombo pwm t baseCombo down up left right cur =
     (if pwm > 0 then
        (let (t1, c1) = (if down \<and> pwm \<ge> 1900 \<and> \<not> trigDown t
                         then (t\<lparr>trigDown := True\<rparr>, baseCombo) else (t, cur));
             (t2, c2) = (if up \<and> pwm \<ge> 1900 \<and> \<not> trigUp t1
                         then (t1\<lparr>trigUp := True\<rparr>, baseCombo + 4) else (t1, c1));
             (t3, c3) = (if left \<and> pwm \<ge> 1900 \<and> \<not> trigLeft t2
                         then (t2\<lparr>trigLeft := True\<rparr>, baseCombo + 8) else (t2, c2));
             (t4, c4) = (if right \<and> pwm \<ge> 1900 \<and> \<not> trigRight t3
                         then (t3\<lparr>trigRight := True\<rparr>, baseCombo + 12) else (t3, c3))
         in (if pwm < LOW_THRESHOLD then no_trig else t4, c4))
      else (t, cur))"

text \<open>The first part of \<open>updateComboHandler\<close>: the direction flags and the eight detectors.\<close>

definition detectCombos :: "combo_inputs \<Rightarrow> combo_state \<Rightarrow> combo_state" where
  "detectCombos i s =
     (let comboDown = ((ch2a_pwm i \<ge> COMBO_DOWN_MIN \<and> ch2a_pwm i \<le> COMBO_DOWN_MAX) \<or>
                       (ch2b_pwm i \<ge> COMBO_DOWN_MIN \<and> ch2b_pwm i \<le> COMBO_DOWN_MAX));
          comboUp = ((ch2a_pwm i \<ge> COMBO_UP_MIN \<and> ch2a_pwm i \<le> COMBO_UP_MAX) \<or>
                     (ch2b_pwm i \<ge> COMBO_UP_MIN \<and> ch2b_pwm i \<le> COMBO_UP_MAX));
          comboLeft = ((ch1a_pwm i > 0 \<and> ch1a_pwm i \<le> COMBO_LEFT_MAX) \<or>
                       (ch1b_pwm i > 0 \<and> ch1b_pwm i \<le> COMBO_LEFT_MAX));
          comboRight = ((ch1a_pwm i > 0 \<and> ch1a_pwm i \<ge> COMBO_RIGHT_MIN) \<or>
                        (ch1b_pwm i > 0 \<and> ch1b_pwm i \<ge> COMBO_RIGHT_MIN));
          (l3, c1) = detectToggleCombo (pwm_CH3 i) (last_CH3 s) 1
                       comboDown comboUp comboLeft comboRight (currentCombo s);
          (l4, c2) = detectToggleCombo (pwm_CH4 i) (last_CH4 s) 2
                       comboDown comboUp comboLeft comboRight c1;
          (l5, c3) = detectToggleCombo (pwm_CH5 i) (last_CH5 s) 3
                       comboDown comboUp comboLeft comboRight c2;
          (ta, c4) = detectMomentaryCombo (pwm_CH6 i) (hasTriggered_CH6_A s) 4
                       comboDown comboUp comboLeft comboRight c3;
          (l3b, c5) = detectToggleCombo (pwm_CH3B i) (last_CH3B s) 17
                       comboDown comboUp comboLeft comboRight c4;
          (l4b, c6) = detectToggleCombo (pwm_CH4B i) (last_CH4B s) 18
                       comboDown comboUp comboLeft comboRight c5;
          (l5b, c7) = detectToggleCombo (pwm_CH5B i) (last_CH5B s) 19
                       comboDown comboUp comboLeft comboRight c6;
          (tb, c8) = detectMomentaryCombo (pwm_CH6B i) (hasTriggered_CH6_B s) 20
                       comboDown comboUp comboLeft comboRight c7
      in s\<lparr>currentCombo := c8,
            last_CH3 := l3, last_CH4 := l4, last_CH5 := l5,
            last_CH3B := l3b, last_CH4B := l4b, last_CH5B := l5b,
            hasTriggered_CH6_A := ta, hasTriggered_CH6_B := tb\<rparr>)"

text \<open>The block "Mode Switching".\<close>

definition modeSwitching :: "combo_state \<Rightarrow> combo_state" where
  "modeSwitching s =
     (if currentCombo s \<ge> 1 \<and> currentCombo s \<le> 4 \<and> currentCombo s \<noteq> currentMode s
      then s\<lparr>currentMode := currentCombo s, currentCombo := 0\<rparr>
      else s)"

text \<open>The block "Debug Mode Print" (its assignment; the printing is not modelled).\<close>

definition debugModePrint :: "combo_state \<Rightarrow> combo_state" where
  "debugModePrint s =
     (if currentMode s \<noteq> lastMode s then s\<lparr>lastMode := currentMode s\<rparr> else s)"

text \<open>The whitelist test of the block "Handle Combos", as the code writes it.\<close>

definition comboPermitted :: "int \<Rightarrow> int \<Rightarrow> bool" where
  "comboPermitted mode combo =
     ((mode = 1 \<or> mode = 4) \<and> combo \<le> 8 \<or> mode = 3 \<and> combo \<le> 16 \<or> mode = 2)"

text \<open>The \<open>switch\<close> on the permitted combo: MarcDuino command and MP3 trigger gating.\<close>

definition comboAction :: "combo_state \<Rightarrow> combo_state" where
  "comboAction s =
     (if currentCombo s = 5 then
        s\<lparr>marcduino_out := marcduino_out s @ ['':SE03'' @ [CHR 0x0D]],
          mp3TriggersEnabled := False\<rparr>
      else if currentCombo s = 6 then
        s\<lparr>marcduino_out := marcduino_out s @ ['':SE00'' @ [CHR 0x0D]],
          mp3TriggersEnabled := True\<rparr>
      else if currentCombo s = 7 then
        s\<lparr>marcduino_out := marcduino_out s @ ['':SE02'' @ [CHR 0x0D]],
          mp3TriggersEnabled := False\<rparr>
      else if currentCombo s = 8 then
        s\<lparr>marcduino_out := marcduino_out s @ ['':SE01'' @ [CHR 0x0D]],
          mp3TriggersEnabled := False\<rparr>
      else if currentCombo s = 9 then
        s\<lparr>marcduino_out := marcduino_out s @ ['':SE10'' @ [CHR 0x0D]]\<rparr>
      else if currentCombo s = 10 then
        s\<lparr>marcduino_out := marcduino_out s @ ['':SE06'' @ [CHR 0x0D]]\<rparr>
      else s)"

text \<open>The block "Handle Combos".\<close>

definition handleCombos :: "combo_inputs \<Rightarrow> combo_state \<Rightarrow> combo_state" where
  "handleCombos i s =
     (if currentCombo s \<noteq> lastCombo s \<and> currentCombo s > 4 then
        (let s1 = (if comboPermitted (currentMode s) (currentCombo s)
                   then (comboAction s)\<lparr>comboTimestamp := millis_stamp i\<rparr>
                   else s\<lparr>currentCombo := 0\<rparr>)
         in s1\<lparr>lastCombo := currentCombo s1\<rparr>)
      else s)"

text \<open>The watchdog that lets an action combo expire.\<close>

definition comboWatchdog :: "combo_inputs \<Rightarrow> combo_state \<Rightarrow> combo_state" where
  "comboWatchdog i s =
     (if currentCombo s > 4 \<and> millis_watchdog i - comboTimestamp s > comboResetDelay
      then s\<lparr>currentCombo := 0\<rparr>
      else s)"

definition updateComboHandler :: "combo_inputs \<Rightarrow> combo_state \<Rightarrow> combo_state" where
  "updateComboHandler i s =
     comboWatchdog i (handleCombos i (debugModePrint (modeSwitching (detectCombos i s))))"

text \<open>
  The whitelist as the specification words it: ids 5 to 8 in modes 1 and 4, ids 5 to 16 in
  mode 3, every id in mode 2.
\<close>

definition spec_whitelist :: "int \<Rightarrow> int \<Rightarrow> bool" where
  "spec_whitelist mode combo =
     (if mode = 1 \<or> mode = 4 then 5 \<le> combo \<and> combo \<le> 8
      else if mode = 3 then 5 \<le> combo \<and> combo \<le> 16
      else mode = 2)"

text \<open>
  \<open>isComboModeActive(mode)\<close>, the kill condition of each mode, from the four stick widths
  it reads with \<open>pulseIn\<close>.
\<close>

definition isComboModeActive :: "int \<Rightarrow> int \<Rightarrow> int \<Rightarrow> int \<Rightarrow> int \<Rightarrow> bool" where
  "isComboModeActive mode ch1a ch2a ch1b ch2b =
     (if mode = 1 then
        (ch2b \<ge> COMBO_DOWN_MIN \<and> ch2b \<le> COMBO_DOWN_MAX) \<or>
        (ch2b \<ge> COMBO_UP_MIN \<and> ch2b \<le> COMBO_UP_MAX)
      else if mode = 2 then
        (ch2a \<ge> COMBO_DOWN_MIN \<and> ch2a \<le> COMBO_DOWN_MAX) \<or>
        (ch2a \<ge> COMBO_UP_MIN \<and> ch2a \<le> COMBO_UP_MAX) \<or>
        (ch1a > 0 \<and> ch1a \<le> COMBO_LEFT_MAX) \<or>
        (ch1a > 0 \<and> ch1a \<ge> COMBO_RIGHT_MIN) \<or>
        (ch2b \<ge> COMBO_DOWN_MIN \<and> ch2b \<le> COMBO_DOWN_MAX) \<or>
        (ch2b \<ge> COMBO_UP_MIN \<and> ch2b \<le> COMBO_UP_MAX) \<or>
        (ch1b > 0 \<and> ch1b \<le> COMBO_LEFT_MAX) \<or>
        (ch1b > 0 \<and> ch1b \<ge> COMBO_RIGHT_MIN)
      else if mode = 3 then
        (ch2b \<ge> COMBO_DOWN_MIN \<and> ch2b \<le> COMBO_DOWN_MAX) \<or>
        (ch2b \<ge> COMBO_UP_MIN \<and> ch2b \<le> COMBO_UP_MAX) \<or>
        (ch1b > 0 \<and> ch1b \<le> COMBO_LEFT_MAX) \<or>
        (ch1b > 0 \<and> ch1b \<ge> COMBO_RIGHT_MIN)
      else if mode = 4 then
        (ch2b \<ge> COMBO_DOWN_MIN \<and> ch2b \<le> COMBO_DOWN_MAX) \<or>
        (ch1b > 0 \<and> ch1b \<le> COMBO_LEFT_MAX) \<or>
        (ch1b > 0 \<and> ch1b \<ge> COMBO_RIGHT_MIN)
      else False)"

section \<open>Manual drive mapping and Safety Arbiter (ManualMode.cpp)\<close>

text \<open>The tunable settings, with the values the file gives them.\<close>

definition expoCurve :: real where "expoCurve = 1"
definition speedLimit :: int where "speedLimit = 25"
definition deadZone :: int where "deadZone = 0"
definition domeDeadZone :: int where "domeDeadZone = 0"
definition fineControlMultiplier :: int where "fineControlMultiplier = 2"
definition domeSpeedLimit :: int where "domeSpeedLimit = 100"
definition domeLeftGain :: real where "domeLeftGain = 1"
definition domeRightGain :: real where "domeRightGain = 1"
definition domeFlickMinDuration :: u32 where "domeFlickMinDuration = 40"
definition domeFlickThreshold :: int where "domeFlickThreshold = 5"
definition maxFlickSpeed :: int where "maxFlickSpeed = 20"
definition motorTimeoutMs :: u32 where "motorTimeoutMs = 50"
definition frameIntervalMicros :: u32 where "frameIntervalMicros = 5000"

text \<open>
  \<open>applyExpoCurve(input, curve, limit)\<close>:
  \<^verbatim>\<open>float normalized = abs(input) / 127.0;
  float curved = pow(normalized, curve) * limit;
  return (input >= 0) ? (int)curved : -(int)curved;\<close>
\<close>

definition applyExpoCurve :: "int \<Rightarrow> real \<Rightarrow> int \<Rightarrow> int" where
  "applyExpoCurve input curve limit =
     (let normalized = real_of_int \<bar>input\<bar> / 127;
          curved = c_pow normalized curve * real_of_int limit
      in if input \<ge> 0 then c_trunc curved else - c_trunc curved)"

text \<open>The commands handed to the motor controllers and to the audio board.\<close>

datatype command =
  ST_drive int
  | ST_turn int
  | DomeMotor int
  | MP3_trigger int
  | AnalogWrite int int

record manual_state =
  lastFrameMicros :: u32
  domeInput :: int
  currentDomeSpeed :: int
  lastSentDomeSpeed :: int
  lastDrive :: int
  lastTurn :: int
  savedTurnSpeed :: int
  previousDomeMillis :: u32
  lastDriveCommandTime :: u32
  lastTurnCommandTime :: u32
  domeStartTime :: u32
  domeFlickActive :: bool
  wasTurnInputActive :: bool
  lastKillState :: bool

definition manual_init :: manual_state where
  "manual_init = \<lparr>lastFrameMicros = 0, domeInput = 0, currentDomeSpeed = 0,
     lastSentDomeSpeed = 0, lastDrive = 0, lastTurn = 0, savedTurnSpeed = 0,
     previousDomeMillis = 0, lastDriveCommandTime = 0, lastTurnCommandTime = 0,
     domeStartTime = 0, domeFlickActive = False, wasTurnInputActive = False,
     lastKillState = False\<rparr>"

text \<open>
  What one call of \<open>loopManualMode\<close> reads: \<open>micros()\<close>, \<open>millis()\<close>, the Pulse Decoder's
  channel values, and the four stick widths \<open>isComboModeActive\<close> measures.
\<close>

record manual_inputs =
  nowMicros :: u32
  now :: u32
  pwm :: pwm_inputs
  kill_ch1a :: int
  kill_ch2a :: int
  kill_ch1b :: int
  kill_ch2b :: int

definition loopManualMode :: "manual_inputs \<Rightarrow> manual_state \<Rightarrow> manual_state \<times> command list" where
  "loopManualMode i s =
     (if nowMicros i - lastFrameMicros s < frameIntervalMicros then (s, [])
      else
       (let rawTurn = getPWMValue_CH1A (pwm i);
            rawDrive = getPWMValue_CH2A (pwm i);
            rawDome = getPWMValue_CH1B (pwm i);
            mappedTurn0 = map_arduino (constrain rawTurn 1000 2000) 1000 2000 (-127) 127;
            mappedDrive0 = map_arduino (constrain rawDrive 1000 2000) 1000 2000 (-127) 127;
            constrainedDome = constrain rawDome 1000 2000;
            domeInput1 =
              (if constrainedDome \<ge> 1500
               then c_trunc (real_of_int (map_arduino constrainedDome 1500 2000 0 100) * domeRightGain)
               else c_trunc (real_of_int (map_arduino constrainedDome 1000 1500 (-100) 0) * domeLeftGain));
            mappedDrive = (if \<bar>mappedDrive0\<bar> \<le> deadZone then 0 else mappedDrive0);
            mappedTurn1 = (if \<bar>mappedTurn0\<bar> \<le> deadZone then 0 else mappedTurn0);
            mappedTurn = (if \<bar>mappedDrive\<bar> > 40 then constrain mappedTurn1 (-100) 100 else mappedTurn1);
            lastTurn1 = (if mappedDrive = 0 \<and> mappedTurn \<noteq> 0
                         then constrain (lastTurn s) (-40) 40 else lastTurn s);
            rawCurvedDome = applyExpoCurve domeInput1 expoCurve domeSpeedLimit;
            curvedDome0 = (if domeFlickActive s then rawCurvedDome
                           else rawCurvedDome * fineControlMultiplier);
            curvedDrive = applyExpoCurve mappedDrive expoCurve speedLimit;
            curvedTurn = applyExpoCurve mappedTurn expoCurve speedLimit;
            lastDrive1 = curvedDrive;
            lastDriveCommandTime1 = now i;
            lastTurn2 = (if mappedTurn = 0 \<and> wasTurnInputActive s then 0
                         else if mappedTurn = 0 then 0 else curvedTurn);
            savedTurnSpeed1 = (if mappedTurn = 0 then savedTurnSpeed s else curvedTurn);
            lastTurnCommandTime1 = (if mappedTurn = 0 then lastTurnCommandTime s else now i);
            wasTurnInputActive1 = (mappedTurn \<noteq> 0);
            killActive = isComboModeActive 1 (kill_ch1a i) (kill_ch2a i) (kill_ch1b i) (kill_ch2b i);
            lastKillState1 = (if killActive \<noteq> lastKillState s then killActive else lastKillState s);
            lastDrive2 = (if killActive then 0 else lastDrive1);
            lastTurn3 = (if killActive then 0 else lastTurn2);
            curvedDome = (if killActive then 0 else curvedDome0);
            inDomeDeadZone = (\<bar>domeInput1\<bar> < domeDeadZone);
            holdFlick = (domeFlickActive s \<and> now i - domeStartTime s < domeFlickMinDuration);
            currentDomeSpeed1 =
              (if inDomeDeadZone
               then (if holdFlick
                     then constrain (lastSentDomeSpeed s) (- maxFlickSpeed) maxFlickSpeed else 0)
               else curvedDome);
            domeFlickActive1 =
              (if inDomeDeadZone then (if holdFlick then domeFlickActive s else False)
               else (if \<bar>curvedDome\<bar> \<ge> domeFlickThreshold then True else domeFlickActive s));
            domeStartTime1 =
              (if inDomeDeadZone then domeStartTime s
               else (if \<bar>curvedDome\<bar> \<ge> domeFlickThreshold then now i else domeStartTime s));
            lastDrive3 = (if now i - lastDriveCommandTime1 > motorTimeoutMs then 0 else lastDrive2);
            lastTurn4 = (if now i - lastTurnCommandTime1 > motorTimeoutMs then 0 else lastTurn3);
            sendDome = (currentDomeSpeed1 \<noteq> lastSentDomeSpeed s)
        in (\<lparr>lastFrameMicros = nowMicros i,
             domeInput = domeInput1,
             currentDomeSpeed = currentDomeSpeed1,
             lastSentDomeSpeed = (if sendDome then currentDomeSpeed1 else lastSentDomeSpeed s),
             lastDrive = lastDrive3,
             lastTurn = lastTurn4,
             savedTurnSpeed = savedTurnSpeed1,
             previousDomeMillis = (if sendDome then now i else previousDomeMillis s),
             lastDriveCommandTime = lastDriveCommandTime1,
             lastTurnCommandTime = lastTurnCommandTime1,
             domeStartTime = domeStartTime1,
             domeFlickActive = domeFlickActive1,
             wasTurnInputActive = wasTurnInputActive1,
             lastKillState = lastKillState1\<rparr>,
            [ST_drive lastDrive3, ST_turn lastTurn4] @
            (if sendDome then [DomeMotor currentDomeSpeed1] else []))))"

text \<open>
  The mapped stick values of a tick, after the dead zone and the turn clamp, as
  \<open>loopManualMode\<close> computes them from the channel values; stated apart so that
  properties of the commands can name them.
\<close>

definition mappedDrive_of :: "pwm_inputs \<Rightarrow> int" where
  "mappedDrive_of p =
     (let m = map_arduino (constrain (getPWMValue_CH2A p) 1000 2000) 1000 2000 (- 127) 127
      in if \<bar>m\<bar> \<le> deadZone then 0 else m)"

definition mappedTurn_of :: "pwm_inputs \<Rightarrow> int" where
  "mappedTurn_of p =
     (let m = map_arduino (constrain (getPWMValue_CH1A p) 1000 2000) 1000 2000 (- 127) 127;
          m1 = (if \<bar>m\<bar> \<le> deadZone then 0 else m)
      in if \<bar>mappedDrive_of p\<bar> > 40 then constrain m1 (- 100) 100 else m1)"

section \<open>Automation Scheduler (AutomatedMode.cpp and HybridMode.cpp)\<close>

definition baseMsPerDegree :: real where "baseMsPerDegree = 1700 / 90"
definition curveFactor :: real where "curveFactor = 14 / 10"
definition baseSpeed :: int where "baseSpeed = 30"
definition minSpeed :: int where "minSpeed = 25"
definition maxSpeed :: int where "maxSpeed = 32"
definition movesBeforeCenter :: int where "movesBeforeCenter = 2"
definition modeDelayMillis :: u32 where "modeDelayMillis = 3000"

text \<open>The free-move angle range of AutomatedMode.cpp and of HybridMode.cpp.\<close>

definition domeMinAngle :: int where "domeMinAngle = 10"
definition domeMaxAngle :: int where "domeMaxAngle = 45"
definition domeMinAngleDeg :: int where "domeMinAngleDeg = 10"
definition domeMaxAngleDeg :: int where "domeMaxAngleDeg = 90"

text \<open>
  The automation state. Both files keep the same variables (file-level in
  AutomatedMode.cpp, function-level statics in HybridMode.cpp); \<open>lastMoveDirection\<close> exists
  in AutomatedMode.cpp only. \<open>domeOffset\<close> is declared \<open>int\<close> in both.
\<close>

record auto_state =
  lastMoveTime :: u32
  nextMoveDelay :: u32
  lastMP3Time :: u32
  nextMP3Delay :: u32
  lastKillState_auto :: bool
  modeEntryTime :: u32
  domeMoving :: bool
  domeOffset :: int
  moveCount :: int
  currentDomeSpeed_auto :: int
  domeDirection :: int
  domeEndTime :: u32
  sequenceSpeed :: int
  sequenceStarted :: bool
  lastMoveDirection :: int

text \<open>The state after \<open>setupAutomatedMode\<close> / \<open>setupHybridMode\<close> ran at time \<open>t\<close>.\<close>

definition auto_init :: "u32 \<Rightarrow> auto_state" where
  "auto_init t = \<lparr>lastMoveTime = 0, nextMoveDelay = 0, lastMP3Time = 0, nextMP3Delay = 0,
     lastKillState_auto = False, modeEntryTime = t, domeMoving = False, domeOffset = 0,
     moveCount = 0, currentDomeSpeed_auto = 0, domeDirection = 0, domeEndTime = 0,
     sequenceSpeed = baseSpeed, sequenceStarted = False, lastMoveDirection = 0\<rparr>"

text \<open>
  The values the calls of \<open>random\<close> return in one tick, one field per call site:
  the next move delay, the sequence speed, the direction draw \<open>random(0, 2)\<close>, the free
  angle, the audio category \<open>random(0, 3)\<close>, the track of each category, the next audio delay.
\<close>

record auto_rnd =
  rnd_delay :: int
  rnd_speed :: int
  rnd_dir :: int
  rnd_angle :: int
  rnd_category :: int
  rnd_track_happy :: int
  rnd_track_sad :: int
  rnd_track_talk :: int
  rnd_mp3_delay :: int

text \<open>
  What one tick reads: \<open>millis()\<close> in \<open>runDomeAutomation\<close> and in \<open>runAutoMP3\<close>, the four
  stick widths of \<open>isComboModeActive\<close>, the result of \<open>isMP3Suppressed()\<close>, and the
  random values.
\<close>

record auto_inputs =
  millis_dome :: u32
  millis_mp3 :: u32
  auto_ch1a :: int
  auto_ch2a :: int
  auto_ch1b :: int
  auto_ch2b :: int
  isMP3Suppressed :: bool
  rnd :: auto_rnd

text \<open>
  The part of \<open>runDomeAutomation\<close> that both files share, from the rescheduling of the
  next move to the motor command: it locks a sequence speed, decides between a return
  move and a free move, computes the duration and tracks the offset.
\<close>

definition startDomeMove :: "auto_rnd \<Rightarrow> u32 \<Rightarrow> auto_state \<Rightarrow> auto_state \<times> command list" where
  "startDomeMove r t s =
     (let sequenceSpeed1 = (if \<not> sequenceStarted s then rnd_speed r else sequenceSpeed s);
          isReturnMove = (moveCount s \<ge> movesBeforeCenter \<or> \<bar>real_of_int (domeOffset s)\<bar> > 0.5);
          direction = (if isReturnMove then (if domeOffset s \<ge> 0 then - 1 else 1)
                       else (if rnd_dir r = 0 then - 1 else 1));
          angle = (if isReturnMove then \<bar>real_of_int (domeOffset s)\<bar>
                   else real_of_int (rnd_angle r));
          moveCount1 = (if isReturnMove then 0 else moveCount s + 1);
          sequenceStarted1 = (if isReturnMove then False else True);
          speedRatio = real_of_int baseSpeed / real_of_int sequenceSpeed1;
          scaleFactor = c_pow speedRatio curveFactor;
          adjusted0 = baseMsPerDegree * scaleFactor;
          adjustedMsPerDegree =
            (if \<not> isReturnMove \<and> direction > 0 then adjusted0 * 1.06
             else if \<not> isReturnMove \<and> direction < 0 then adjusted0 * 0.96
             else adjusted0);
          duration = c_trunc (angle * adjustedMsPerDegree);
          actualAngleMoved = real_of_int duration / adjustedMsPerDegree;
          domeOffset1 = c_trunc (real_of_int (domeOffset s) + real_of_int direction * actualAngleMoved)
      in (s\<lparr>lastMoveTime := t,
             nextMoveDelay := word_of_int (rnd_delay r),
             sequenceSpeed := sequenceSpeed1,
             sequenceStarted := sequenceStarted1,
             moveCount := moveCount1,
             domeOffset := domeOffset1,
             domeEndTime := t + word_of_int duration,
             domeDirection := direction,
             currentDomeSpeed_auto := sequenceSpeed1,
             domeMoving := True\<rparr>,
          [DomeMotor (direction * sequenceSpeed1)]))"

text \<open>
  \<open>runDomeAutomation\<close> of AutomatedMode.cpp. After a free move it also records the
  direction in \<open>lastMoveDirection\<close>; a free move is the one that leaves
  \<open>sequenceStarted\<close> set.
\<close>

definition runDomeAutomation_Automated ::
  "auto_rnd \<Rightarrow> u32 \<Rightarrow> auto_state \<Rightarrow> auto_state \<times> command list" where
  "runDomeAutomation_Automated r t s =
     (if domeMoving s then
        (if t \<ge> domeEndTime s then (s\<lparr>domeMoving := False\<rparr>, [DomeMotor 0]) else (s, []))
      else if t - lastMoveTime s < nextMoveDelay s \<or> t - modeEntryTime s < modeDelayMillis
      then (s, [])
      else
        (let (s1, out) = startDomeMove r t s
         in (s1\<lparr>lastMoveDirection :=
                   (if sequenceStarted s1 then domeDirection s1 else lastMoveDirection s1)\<rparr>,
             out)))"

text \<open>\<open>runDomeAutomation\<close> of HybridMode.cpp: the settle window is tested first.\<close>

definition runDomeAutomation_Hybrid ::
  "auto_rnd \<Rightarrow> u32 \<Rightarrow> auto_state \<Rightarrow> auto_state \<times> command list" where
  "runDomeAutomation_Hybrid r t s =
     (if t - modeEntryTime s < 3000 then (s, [])
      else if domeMoving s then
        (if t \<ge> domeEndTime s then (s\<lparr>domeMoving := False\<rparr>, [DomeMotor 0]) else (s, []))
      else if t - lastMoveTime s < nextMoveDelay s then (s, [])
      else startDomeMove r t s)"

text \<open>The track the audio cadence picks: a category, then a track of that category.\<close>

definition pickTrack :: "auto_rnd \<Rightarrow> int" where
  "pickTrack r =
     (if rnd_category r = 0 then rnd_track_happy r
      else if rnd_category r = 1 then rnd_track_sad r
      else rnd_track_talk r)"

text \<open>\<open>runAutoMP3\<close> of AutomatedMode.cpp.\<close>

definition runAutoMP3_Automated ::
  "auto_rnd \<Rightarrow> u32 \<Rightarrow> bool \<Rightarrow> auto_state \<Rightarrow> auto_state \<times> command list" where
  "runAutoMP3_Automated r t suppressed s =
     (if t - lastMP3Time s > nextMP3Delay s then
        (s\<lparr>lastMP3Time := t, nextMP3Delay := word_of_int (rnd_mp3_delay r)\<rparr>,
         if \<not> suppressed then [MP3_trigger (pickTrack r)] else [])
      else (s, []))"

text \<open>\<open>runAutoMP3\<close> of HybridMode.cpp.\<close>

definition runAutoMP3_Hybrid ::
  "auto_rnd \<Rightarrow> u32 \<Rightarrow> bool \<Rightarrow> auto_state \<Rightarrow> auto_state \<times> command list" where
  "runAutoMP3_Hybrid r t suppressed s =
     (if t - modeEntryTime s < 3000 then (s, [])
      else if t - lastMP3Time s > nextMP3Delay s \<and> \<not> suppressed then
        (s\<lparr>lastMP3Time := t, nextMP3Delay := word_of_int (rnd_mp3_delay r)\<rparr>,
         [MP3_trigger (pickTrack r)])
      else (s, []))"

text \<open>\<open>loopAutomatedMode\<close>: the kill condition of mode 2 gates both cadences.\<close>

definition loopAutomatedMode :: "auto_inputs \<Rightarrow> auto_state \<Rightarrow> auto_state \<times> command list" where
  "loopAutomatedMode i s =
     (let killActive = isComboModeActive 2 (auto_ch1a i) (auto_ch2a i) (auto_ch1b i) (auto_ch2b i);
          s0 = (if killActive \<noteq> lastKillState_auto s then s\<lparr>lastKillState_auto := killActive\<rparr>
                else s)
      in if \<not> killActive then
           (let (s1, out1) = runDomeAutomation_Automated (rnd i) (millis_dome i) s0;
                (s2, out2) = runAutoMP3_Automated (rnd i) (millis_mp3 i) (isMP3Suppressed i) s1
            in (s2, out1 @ out2))
         else (s0, []))"

text \<open>
  The automation part of \<open>loopHybridMode\<close>: the kill condition of mode 3 and the calls it
  gates. The drive mapping of that loop is not repeated here.
\<close>

definition loopHybridMode_automation ::
  "auto_inputs \<Rightarrow> auto_state \<Rightarrow> auto_state \<times> command list" where
  "loopHybridMode_automation i s =
     (let killActive = isComboModeActive 3 (auto_ch1a i) (auto_ch2a i) (auto_ch1b i) (auto_ch2b i);
          s0 = (if killActive \<noteq> lastKillState_auto s then s\<lparr>lastKillState_auto := killActive\<rparr>
                else s)
      in if \<not> killActive then
           (let (s1, out1) = runDomeAutomation_Hybrid (rnd i) (millis_dome i) s0;
                (s2, out2) = runAutoMP3_Hybrid (rnd i) (millis_mp3 i) (isMP3Suppressed i) s1
            in (s2, out1 @ out2))
         else (s0, [AnalogWrite 46 0]))"

text \<open>Runs: one input per tick; the final state and all commands, oldest first.\<close>

fun automated_run :: "auto_inputs list \<Rightarrow> auto_state \<Rightarrow> auto_state \<times> command list" where
  "automated_run [] s = (s, [])"
| "automated_run (i # is) s =
     (let (s1, out1) = loopAutomatedMode i s; (s2, out2) = automated_run is s1
      in (s2, out1 @ out2))"

fun hybrid_run :: "auto_inputs list \<Rightarrow> auto_state \<Rightarrow> auto_state \<times> command list" where
  "hybrid_run [] s = (s, [])"
| "hybrid_run (i # is) s =
     (let (s1, out1) = loopHybridMode_automation i s; (s2, out2) = hybrid_run is s1
      in (s2, out1 @ out2))"

text \<open>
  The contract of the Arduino function \<open>random(min, max)\<close>, which returns a value from
  \<open>min\<close> to \<open>max - 1\<close>, for the draws that shape a dome move.
\<close>

definition rnd_ok_Automated :: "auto_rnd \<Rightarrow> bool" where
  "rnd_ok_Automated r =
     (minSpeed \<le> rnd_speed r \<and> rnd_speed r \<le> maxSpeed \<and>
      0 \<le> rnd_dir r \<and> rnd_dir r \<le> 1 \<and>
      domeMinAngle \<le> rnd_angle r \<and> rnd_angle r \<le> domeMaxAngle)"

definition rnd_ok_Hybrid :: "auto_rnd \<Rightarrow> bool" where
  "rnd_ok_Hybrid r =
     (minSpeed \<le> rnd_speed r \<and> rnd_speed r \<le> maxSpeed \<and>
      0 \<le> rnd_dir r \<and> rnd_dir r \<le> 1 \<and>
      domeMinAngleDeg \<le> rnd_angle r \<and> rnd_angle r \<le> domeMaxAngleDeg)"

text \<open>
  The invariant of the scheduler's state: the locked speed is one \<open>random\<close> can return (or
  the initial base speed), and the offset is within the largest free-move angle.
\<close>

definition dome_inv :: "int \<Rightarrow> auto_state \<Rightarrow> bool" where
  "dome_inv maxAngle s =
     (minSpeed \<le> sequenceSpeed s \<and> sequenceSpeed s \<le> maxSpeed \<and>
      \<bar>domeOffset s\<bar> \<le> maxAngle)"

text \<open>
  A move is due: none is in flight, the delay since the last move is over and so is the
  settle window after mode entry (3000 ms in both files).
\<close>

definition move_due :: "u32 \<Rightarrow> auto_state \<Rightarrow> bool" where
  "move_due t s =
     (\<not> domeMoving s \<and> nextMoveDelay s \<le> t - lastMoveTime s \<and>
      modeDelayMillis \<le> t - modeEntryTime s)"

text \<open>The rate of a return move at the locked speed: the unmodified milliseconds per degree.\<close>

definition returnMsPerDegree :: "int \<Rightarrow> real" where
  "returnMsPerDegree speed =
     baseMsPerDegree * c_pow (real_of_int baseSpeed / real_of_int speed) curveFactor"

text \<open>
  The correction move as the specification words it: direction opposite to the sign of the
  offset, angle \<open>|offset|\<close> at the unmodified rate, swing count reset, sequence speed
  unlocked, offset back at zero.
\<close>

definition spec_correction_move ::
  "auto_rnd \<Rightarrow> u32 \<Rightarrow> auto_state \<Rightarrow> auto_state \<times> command list" where
  "spec_correction_move r t s =
     (let speed = (if sequenceStarted s then sequenceSpeed s else rnd_speed r);
          direction = (if 0 \<le> domeOffset s then - 1 else 1);
          angle = \<bar>real_of_int (domeOffset s)\<bar>
      in (s\<lparr>lastMoveTime := t,
             nextMoveDelay := word_of_int (rnd_delay r),
             sequenceSpeed := speed,
             sequenceStarted := False,
             moveCount := 0,
             domeOffset := 0,
             domeEndTime := t + word_of_int \<lfloor>angle * returnMsPerDegree speed\<rfloor>,
             domeDirection := direction,
             currentDomeSpeed_auto := speed,
             domeMoving := True\<rparr>,
          [DomeMotor (direction * speed)]))"

section \<open>Concrete scenarios\<close>

text \<open>
  A call of \<open>updateComboHandler\<close> with controller B's stick at the given widths, buttons
  CH3 and CH4 of controller A at the given widths, every other \<open>pulseIn\<close> timing out, and
  both clock reads at 100 ms.
\<close>

definition combo_press :: "int \<Rightarrow> int \<Rightarrow> int \<Rightarrow> int \<Rightarrow> combo_inputs" where
  "combo_press stickBx stickBy ch3 ch4 =
     \<lparr>ch1a_pwm = 1500, ch2a_pwm = 1500, ch1b_pwm = stickBx, ch2b_pwm = stickBy,
      pwm_CH3 = ch3, pwm_CH4 = ch4, pwm_CH5 = 0, pwm_CH6 = 0,
      pwm_CH3B = 0, pwm_CH4B = 0, pwm_CH5B = 0, pwm_CH6B = 0,
      millis_stamp = 100, millis_watchdog = 100\<rparr>"

text \<open>
  A call of \<open>loopManualMode\<close> at the given \<open>micros()\<close> and \<open>millis()\<close>, with the turn,
  drive and dome channels at the given widths and controller B's vertical stick centred
  (kill condition not held).
\<close>

definition manual_tick :: "u32 \<Rightarrow> u32 \<Rightarrow> int \<Rightarrow> int \<Rightarrow> int \<Rightarrow> manual_inputs" where
  "manual_tick us ms turn drive dome =
     \<lparr>nowMicros = us, now = ms,
      pwm = \<lparr>ch1_value = word_of_int turn, ch2_value = word_of_int drive,
              ch1b_value = word_of_int dome, ch1_start = 0, ch2_start = 0, ch1b_start = 0\<rparr>,
      kill_ch1a = turn, kill_ch2a = drive, kill_ch1b = dome, kill_ch2b = 1500\<rparr>"

text \<open>
  The state of Manual Mode after one tick at 5 ms with the drive stick (respectively the
  turn stick) fully deflected.
\<close>

definition drive_held :: manual_state where
  "drive_held = manual_init\<lparr>lastFrameMicros := 5000, lastDrive := 25, lastDriveCommandTime := 5\<rparr>"

definition turn_held :: manual_state where
  "turn_held = manual_init\<lparr>lastFrameMicros := 5000, lastTurn := 25, savedTurnSpeed := 25,
     lastDriveCommandTime := 5, lastTurnCommandTime := 5, wasTurnInputActive := True\<rparr>"

text \<open>
  A tick of an automation loop at time \<open>t\<close>, with controller B's vertical stick at the
  given width (1000 holds the kill condition of modes 2 and 3, 1500 releases it).
\<close>

definition auto_tick :: "u32 \<Rightarrow> int \<Rightarrow> bool \<Rightarrow> auto_rnd \<Rightarrow> auto_inputs" where
  "auto_tick t stickB suppressed r =
     \<lparr>millis_dome = t, millis_mp3 = t, auto_ch1a = 1500, auto_ch2a = 1500, auto_ch1b = 1500,
      auto_ch2b = stickB, isMP3Suppressed = suppressed, rnd = r\<rparr>"

definition rnd_sample :: auto_rnd where
  "rnd_sample = \<lparr>rnd_delay = 9000, rnd_speed = 30, rnd_dir = 1, rnd_angle = 20,
     rnd_category = 0, rnd_track_happy = 7, rnd_track_sad = 26, rnd_track_talk = 50,
     rnd_mp3_delay = 30000\<rparr>"

text \<open>A state with one swing made and 17 degrees of offset, no move in flight.\<close>

definition swung_state :: auto_state where
  "swung_state = (auto_init 0)\<lparr>domeOffset := 17, moveCount := 1, sequenceStarted := True\<rparr>"

text \<open>
  The state of Automated Mode after its first move was started at 20000 ms: a free move
  to the right at speed 30, scheduled to end at 20400 ms.
\<close>

definition move_in_flight :: auto_state where
  "move_in_flight = (auto_init 0)\<lparr>lastMoveTime := 20000, nextMoveDelay := 9000,
     lastMP3Time := 20000, nextMP3Delay := 30000, domeMoving := True, domeOffset := 19,
     moveCount := 1, currentDomeSpeed_auto := 30, domeDirection := 1, domeEndTime := 20400,
     sequenceSpeed := 30, sequenceStarted := True, lastMoveDirection := 1\<rparr>"

section \<open>Pulse Decoder: properties\<close>

text \<open>
  Claim C1 (as stated): a reading of width 0, or outside the band [900,2200], leaves the
  channel's published value unchanged. The handlers have no validity check: from the
  initial state (every channel at 1500), a rising and a falling edge at the same
  microsecond publish 0 on channel 1, and a pulse of 5000 microseconds publishes 5000 on
  channel 2.
\<close>

theorem C1_invalid_width_overwrites:
  "getPWMValue_CH1A pwm_init = 1500 \<and>
   getPWMValue_CH1A (ch1_fall 1000 (ch1_rise 1000 pwm_init)) = 0 \<and>
   getPWMValue_CH2A pwm_init = 1500 \<and>
   getPWMValue_CH2A (ch2_fall 6000 (ch2_rise 1000 pwm_init)) = 5000"
  by (simp add: getPWMValue_CH1A_def getPWMValue_CH2A_def ch1_fall_def ch1_rise_def
      ch2_fall_def ch2_rise_def pwm_init_def)

text \<open>
  Claim C1 (amended): after a rising edge at \<open>t0\<close> and the falling edge at \<open>t1\<close>,
  every monitored channel reads the measured width \<open>t1 - t0\<close> (its low 16 bits, as a
  signed value), whatever the width is; the other channels read what they read before.
\<close>

theorem C1_fall_publishes_every_width:
  "getPWMValue_CH1A (ch1_fall t1 (ch1_rise t0 s)) = sint (ucast (t1 - t0) :: i16) \<and>
   getPWMValue_CH2A (ch2_fall t1 (ch2_rise t0 s)) = sint (ucast (t1 - t0) :: i16) \<and>
   getPWMValue_CH1B (ch1b_fall t1 (ch1b_rise t0 s)) = sint (ucast (t1 - t0) :: i16) \<and>
   getPWMValue_CH2A (ch1_fall t1 (ch1_rise t0 s)) = getPWMValue_CH2A s \<and>
   getPWMValue_CH1B (ch1_fall t1 (ch1_rise t0 s)) = getPWMValue_CH1B s \<and>
   getPWMValue_CH1A (ch2_fall t1 (ch2_rise t0 s)) = getPWMValue_CH1A s \<and>
   getPWMValue_CH1B (ch2_fall t1 (ch2_rise t0 s)) = getPWMValue_CH1B s \<and>
   getPWMValue_CH1A (ch1b_fall t1 (ch1b_rise t0 s)) = getPWMValue_CH1A s \<and>
   getPWMValue_CH2A (ch1b_fall t1 (ch1b_rise t0 s)) = getPWMValue_CH2A s"
  by (simp add: getPWMValue_CH1A_def getPWMValue_CH2A_def getPWMValue_CH1B_def
      ch1_fall_def ch2_fall_def ch1b_fall_def ch1_rise_def ch2_rise_def ch1b_rise_def)

section \<open>Mode/Combo Recognizer: properties\<close>

lemmas combo_simps = combo_press_def combo_init_def no_trig_def detectToggleCombo_def
  detectMomentaryCombo_def HIGH_def LOW_def HIGH_THRESHOLD_def LOW_THRESHOLD_def
  COMBO_DOWN_MIN_def COMBO_DOWN_MAX_def COMBO_UP_MIN_def COMBO_UP_MAX_def
  COMBO_LEFT_MAX_def COMBO_RIGHT_MIN_def comboResetDelay_def

text \<open>
  What the detectors find from the initial state: stick B down with CH3 gives combo 1, stick
  B down with CH4 combo 2, stick B up with CH3 combo 5, stick B left with CH3 combo 9.
\<close>

lemma detect_examples:
  "currentCombo (detectCombos (combo_press 1500 1000 2000 0) combo_init) = 1"
  "currentCombo (detectCombos (combo_press 1500 1000 0 2000) combo_init) = 2"
  "currentCombo (detectCombos (combo_press 1500 2000 2000 0) combo_init) = 5"
  "currentCombo (detectCombos (combo_press 1000 1500 2000 0) combo_init) = 9"
  by (simp only: detectCombos_def Let_def, simp add: combo_simps)+

text \<open>The detectors write the combo, the button states and the latches, nothing else.\<close>

lemma detectCombos_keeps:
  "currentMode (detectCombos i s) = currentMode s \<and>
   lastCombo (detectCombos i s) = lastCombo s \<and>
   lastMode (detectCombos i s) = lastMode s \<and>
   comboTimestamp (detectCombos i s) = comboTimestamp s"
  by (simp add: detectCombos_def Let_def split: prod.splits)

text \<open>
  Claim C6: a detected combo id above 4 that differs from the previously active one becomes
  the active combo only if the whitelist of the current mode permits it (ids 5 to 8 in
  modes 1 and 4, ids 5 to 16 in mode 3, every id in mode 2); otherwise it is discarded and
  the active combo is idle (0). The code's test agrees with the whitelist as the
  specification words it; a permitted combo is stamped and stays active unless more than
  \<open>comboResetDelay\<close> passes between the two clock reads of the same call; the mode is
  not changed.
\<close>

theorem C6_whitelist:
  assumes "4 < currentCombo (detectCombos i s)"
    and "currentCombo (detectCombos i s) \<noteq> lastCombo s"
  shows "comboPermitted (currentMode s) (currentCombo (detectCombos i s)) =
           spec_whitelist (currentMode s) (currentCombo (detectCombos i s)) \<and>
         (currentCombo (updateComboHandler i s) = currentCombo (detectCombos i s) \<longrightarrow>
            spec_whitelist (currentMode s) (currentCombo (detectCombos i s))) \<and>
         (spec_whitelist (currentMode s) (currentCombo (detectCombos i s)) \<and>
          millis_watchdog i - millis_stamp i \<le> comboResetDelay \<longrightarrow>
            currentCombo (updateComboHandler i s) = currentCombo (detectCombos i s) \<and>
            lastCombo (updateComboHandler i s) = currentCombo (detectCombos i s) \<and>
            comboTimestamp (updateComboHandler i s) = millis_stamp i) \<and>
         (\<not> spec_whitelist (currentMode s) (currentCombo (detectCombos i s)) \<longrightarrow>
            currentCombo (updateComboHandler i s) = 0 \<and>
            lastCombo (updateComboHandler i s) = 0) \<and>
         currentMode (updateComboHandler i s) = currentMode s"
proof -
  let ?d = "detectCombos i s"
  have k: "currentMode ?d = currentMode s" "lastCombo ?d = lastCombo s"
    using detectCombos_keeps [of i s] by simp_all
  have ms: "modeSwitching ?d = ?d"
    using assms(1) by (simp add: modeSwitching_def)
  have ca: "currentCombo (comboAction x) = currentCombo x \<and>
            currentMode (comboAction x) = currentMode x \<and>
            lastCombo (comboAction x) = lastCombo x" for x
    by (simp add: comboAction_def)
  have dp: "currentCombo (debugModePrint x) = currentCombo x \<and>
            currentMode (debugModePrint x) = currentMode x \<and>
            lastCombo (debugModePrint x) = lastCombo x" for x
    by (simp add: debugModePrint_def)
  have eq: "comboPermitted (currentMode s) (currentCombo ?d) =
            spec_whitelist (currentMode s) (currentCombo ?d)"
    using assms(1) by (auto simp: comboPermitted_def spec_whitelist_def)
  show ?thesis
    using assms k eq
    by (auto simp: updateComboHandler_def ms comboWatchdog_def handleCombos_def Let_def ca dp
        not_less)
qed

text \<open>
  Witness for C6: in mode 1, combo 5 (stick B up, CH3) is permitted and becomes active;
  combo 9 (stick B left, CH3) is not permitted and the active combo is 0.
\<close>

theorem C6_whitelist_witness:
  "currentCombo (detectCombos (combo_press 1500 2000 2000 0) combo_init) = 5 \<and>
   lastCombo combo_init = 0 \<and> currentMode combo_init = 1 \<and>
   spec_whitelist 1 5 \<and>
   millis_watchdog (combo_press 1500 2000 2000 0) - millis_stamp (combo_press 1500 2000 2000 0)
     \<le> comboResetDelay \<and>
   currentCombo (updateComboHandler (combo_press 1500 2000 2000 0) combo_init) = 5 \<and>
   currentCombo (detectCombos (combo_press 1000 1500 2000 0) combo_init) = 9 \<and>
   \<not> spec_whitelist 1 9 \<and>
   currentCombo (updateComboHandler (combo_press 1000 1500 2000 0) combo_init) = 0"
proof -
  have i: "lastCombo combo_init = 0" "currentMode combo_init = 1"
    by (simp_all add: combo_init_def)
  have w: "spec_whitelist 1 5" "\<not> spec_whitelist 1 9"
    by (simp_all add: spec_whitelist_def)
  have t: "millis_watchdog (combo_press 1500 2000 2000 0) -
           millis_stamp (combo_press 1500 2000 2000 0) \<le> comboResetDelay"
    by (simp add: combo_press_def comboResetDelay_def)
  from C6_whitelist [of "combo_press 1500 2000 2000 0" combo_init]
    C6_whitelist [of "combo_press 1000 1500 2000 0" combo_init]
  show ?thesis
    using i w t by (simp add: detect_examples)
qed

text \<open>
  Claim C7 (as stated): every detected combo id from 1 to 4 sets the mode to that id and
  resets the active combo to 0. The mode-select block is guarded by
  \<open>currentCombo != currentMode\<close>: in the initial state (mode 1), stick B down with CH3
  detects combo 1, and after the update the active combo is still 1.
\<close>

theorem C7_same_mode_not_reset:
  "currentMode combo_init = 1 \<and>
   currentCombo (detectCombos (combo_press 1500 1000 2000 0) combo_init) = 1 \<and>
   currentMode (updateComboHandler (combo_press 1500 1000 2000 0) combo_init) = 1 \<and>
   currentCombo (updateComboHandler (combo_press 1500 1000 2000 0) combo_init) = 1"
  using detectCombos_keeps [of "combo_press 1500 1000 2000 0" combo_init]
  by (simp add: updateComboHandler_def comboWatchdog_def handleCombos_def debugModePrint_def
      modeSwitching_def detect_examples) (simp add: combo_init_def)

text \<open>
  Claim C7 (amended): for every detected combo id from 1 to 4, the mode after the update
  equals that id; the active combo is reset to 0 when the id differs from the mode that
  was current, and stays at that id when it equals it.
\<close>

theorem C7_mode_select:
  assumes "1 \<le> currentCombo (detectCombos i s)" and "currentCombo (detectCombos i s) \<le> 4"
  shows "currentMode (updateComboHandler i s) = currentCombo (detectCombos i s) \<and>
         currentCombo (updateComboHandler i s) =
           (if currentCombo (detectCombos i s) = currentMode s
            then currentCombo (detectCombos i s) else 0)"
  using assms detectCombos_keeps [of i s]
  by (simp add: updateComboHandler_def comboWatchdog_def handleCombos_def debugModePrint_def
      modeSwitching_def)

text \<open>
  Witness for C7 (amended): from mode 1, stick B down with CH4 detects combo 2; the mode
  becomes 2 and the active combo 0.
\<close>

theorem C7_mode_select_witness:
  "1 \<le> currentCombo (detectCombos (combo_press 1500 1000 0 2000) combo_init) \<and>
   currentCombo (detectCombos (combo_press 1500 1000 0 2000) combo_init) \<le> 4 \<and>
   currentMode combo_init = 1 \<and>
   currentMode (updateComboHandler (combo_press 1500 1000 0 2000) combo_init) = 2 \<and>
   currentCombo (updateComboHandler (combo_press 1500 1000 0 2000) combo_init) = 0"
  using C7_mode_select [of "combo_press 1500 1000 0 2000" combo_init]
  by (simp add: detect_examples) (simp add: combo_init_def)

section \<open>Expo curve: properties\<close>

lemma c_pow_unit:
  "0 \<le> x \<Longrightarrow> x \<le> 1 \<Longrightarrow> 0 \<le> y \<Longrightarrow> 0 \<le> c_pow x y \<and> c_pow x y \<le> 1"
  by (simp add: c_pow_def powr_le1)

lemma c_trunc_bounds:
  "0 \<le> r \<Longrightarrow> r \<le> real_of_int n \<Longrightarrow> 0 \<le> c_trunc r \<and> c_trunc r \<le> n"
  by (simp add: c_trunc_def floor_le_iff le_floor_iff)

lemma curved_bounds:
  assumes "- 127 \<le> x" "x \<le> 127" "0 \<le> curve" "0 \<le> limit"
  shows "0 \<le> c_pow (real_of_int \<bar>x\<bar> / 127) curve * real_of_int limit"
    and "c_pow (real_of_int \<bar>x\<bar> / 127) curve * real_of_int limit \<le> real_of_int limit"
proof -
  have n: "0 \<le> real_of_int \<bar>x\<bar> / 127" "real_of_int \<bar>x\<bar> / 127 \<le> 1"
    using assms by simp_all
  from c_pow_unit [OF n assms(3)]
  have p: "0 \<le> c_pow (real_of_int \<bar>x\<bar> / 127) curve"
    "c_pow (real_of_int \<bar>x\<bar> / 127) curve \<le> 1"
    by simp_all
  show "0 \<le> c_pow (real_of_int \<bar>x\<bar> / 127) curve * real_of_int limit"
    using p(1) assms(4) by simp
  show "c_pow (real_of_int \<bar>x\<bar> / 127) curve * real_of_int limit \<le> real_of_int limit"
    using mult_left_le_one_le [of "real_of_int limit" "c_pow (real_of_int \<bar>x\<bar> / 127) curve"]
      p assms(4) by simp
qed

lemma applyExpoCurve_abs_le:
  assumes "- 127 \<le> x" "x \<le> 127" "0 \<le> curve" "0 \<le> limit"
  shows "\<bar>applyExpoCurve x curve limit\<bar> \<le> limit"
proof -
  let ?c = "c_pow (real_of_int \<bar>x\<bar> / 127) curve * real_of_int limit"
  from curved_bounds [OF assms] have "0 \<le> ?c" "?c \<le> real_of_int limit" by simp_all
  from c_trunc_bounds [OF this] show ?thesis
    by (auto simp: applyExpoCurve_def Let_def)
qed

text \<open>
  Claim C10 (as stated): for \<open>x\<close> in [-127,127], a curve exponent at least 0 and a
  non-negative limit, \<open>applyExpoCurve\<close> is odd, its result has the sign of \<open>x\<close>, and its
  absolute value is at most the limit. The conversion to \<open>int\<close> truncates: input 1 with
  exponent 1 and limit 25 gives 0, which has not the sign of 1. And \<open>pow(0, 0)\<close> is 1:
  input 0 with exponent 0 and limit 25 gives 25, so the function is not odd at 0.
\<close>

theorem C10_truncation_and_pow_zero:
  "applyExpoCurve 1 1 25 = 0 \<and> applyExpoCurve 0 0 25 = 25"
  by (simp add: applyExpoCurve_def c_pow_def c_trunc_def)

text \<open>
  Claim C10 (amended): for \<open>x\<close> in [-127,127], a curve exponent at least 0 and a
  non-negative limit, the absolute value of the result is at most the limit; the result is
  never of the sign opposite to \<open>x\<close> (it is at least 0 for positive \<open>x\<close> and at most 0 for
  negative \<open>x\<close>, and may be 0); and \<open>applyExpoCurve(-x) = -applyExpoCurve(x)\<close> whenever
  \<open>x\<close> is not 0 or the exponent is positive.
\<close>

theorem C10_expo_bounded_odd:
  assumes "- 127 \<le> x" "x \<le> 127" "0 \<le> curve" "0 \<le> limit"
  shows "\<bar>applyExpoCurve x curve limit\<bar> \<le> limit \<and>
         (0 < x \<longrightarrow> 0 \<le> applyExpoCurve x curve limit) \<and>
         (x < 0 \<longrightarrow> applyExpoCurve x curve limit \<le> 0) \<and>
         (x \<noteq> 0 \<or> 0 < curve \<longrightarrow>
            applyExpoCurve (- x) curve limit = - applyExpoCurve x curve limit)"
proof -
  let ?c = "c_pow (real_of_int \<bar>x\<bar> / 127) curve * real_of_int limit"
  from curved_bounds [OF assms] have "0 \<le> ?c" "?c \<le> real_of_int limit" by simp_all
  from c_trunc_bounds [OF this] have t: "0 \<le> c_trunc ?c" "c_trunc ?c \<le> limit" by simp_all
  have z: "0 < curve \<Longrightarrow> x = 0 \<Longrightarrow> c_trunc ?c = 0"
    by (simp add: c_pow_def c_trunc_def)
  show ?thesis
    using t z by (auto simp: applyExpoCurve_def Let_def)
qed

text \<open>Witness for C10 (amended): input 100, exponent 1, limit 100 gives 78, and -78 for -100.\<close>

theorem C10_expo_bounded_odd_witness:
  "- 127 \<le> (100::int) \<and> (100::int) \<le> 127 \<and> (0::real) \<le> 1 \<and> (0::int) \<le> 100 \<and>
   applyExpoCurve 100 1 100 = 78 \<and>
   \<bar>applyExpoCurve 100 1 100\<bar> \<le> 100 \<and>
   0 \<le> applyExpoCurve 100 1 100 \<and>
   applyExpoCurve (- 100) 1 100 = - applyExpoCurve 100 1 100"
proof -
  have e: "applyExpoCurve 100 1 100 = 78"
    by (simp add: applyExpoCurve_def c_pow_def c_trunc_def)
  from C10_expo_bounded_odd [of 100 1 100] show ?thesis
    using e by simp
qed

section \<open>Manual Mode: properties\<close>

lemmas manual_simps = manual_init_def manual_tick_def
  frameIntervalMicros_def getPWMValue_CH1A_def getPWMValue_CH2A_def getPWMValue_CH1B_def
  constrain_def map_arduino_def c_div_def c_trunc_def c_pow_def applyExpoCurve_def
  expoCurve_def speedLimit_def deadZone_def domeDeadZone_def fineControlMultiplier_def
  domeSpeedLimit_def domeLeftGain_def domeRightGain_def domeFlickMinDuration_def
  domeFlickThreshold_def maxFlickSpeed_def motorTimeoutMs_def isComboModeActive_def
  COMBO_DOWN_MIN_def COMBO_DOWN_MAX_def COMBO_UP_MIN_def COMBO_UP_MAX_def

text \<open>The mapped stick value handed to the expo curve is within [-127,127].\<close>

lemma map_arduino_stick_range:
  "- 127 \<le> map_arduino (constrain x 1000 2000) 1000 2000 (- 127) 127 \<and>
   map_arduino (constrain x 1000 2000) 1000 2000 (- 127) 127 \<le> 127"
proof -
  let ?c = "constrain x 1000 2000"
  have c: "1000 \<le> ?c" "?c \<le> 2000" by (simp_all add: constrain_def)
  then have n: "0 \<le> (?c - 1000) * 254" "(?c - 1000) * 254 \<le> 254000" by simp_all
  then have d: "0 \<le> ((?c - 1000) * 254) div 1000" "((?c - 1000) * 254) div 1000 \<le> 254"
    by simp_all
  have "c_div ((?c - 1000) * 254) 1000 = ((?c - 1000) * 254) div 1000"
    using n(1) by (cases "(?c - 1000) * 254 = 0") (simp_all add: c_div_def sgn_if)
  then show ?thesis using d by (simp add: map_arduino_def)
qed

lemma constrain_range: "a \<le> b \<Longrightarrow> a \<le> constrain x a b \<and> constrain x a b \<le> b"
  by (simp add: constrain_def)

lemma mapped_range:
  "- 127 \<le> mappedDrive_of p \<and> mappedDrive_of p \<le> 127 \<and>
   - 127 \<le> mappedTurn_of p \<and> mappedTurn_of p \<le> 127"
proof -
  note d = map_arduino_stick_range [of "getPWMValue_CH2A p"]
  note t = map_arduino_stick_range [of "getPWMValue_CH1A p"]
  let ?m1 = "if \<bar>map_arduino (constrain (getPWMValue_CH1A p) 1000 2000) 1000 2000 (- 127) 127\<bar>
                  \<le> deadZone
             then 0
             else map_arduino (constrain (getPWMValue_CH1A p) 1000 2000) 1000 2000 (- 127) 127"
  note c = constrain_range [of "- 100" 100 ?m1]
  have m1: "- 127 \<le> ?m1" "?m1 \<le> 127" using t by simp_all
  have "- 127 \<le> mappedDrive_of p \<and> mappedDrive_of p \<le> 127"
    using d by (simp add: mappedDrive_of_def Let_def)
  moreover have "- 127 \<le> mappedTurn_of p \<and> mappedTurn_of p \<le> 127"
    unfolding mappedTurn_of_def Let_def using m1 c by (simp split: if_splits)
  ultimately show ?thesis by simp
qed

text \<open>
  The drive and turn commands of every tick that passes the frame limiter: they are
  computed from the tick's own channel values and kill condition. No timestamp and no
  earlier command enters them, so neither timeout test ever changes what is sent.
\<close>

lemma manual_drive_turn_commands:
  assumes "\<not> nowMicros i - lastFrameMicros s < frameIntervalMicros"
  shows "take 2 (snd (loopManualMode i s)) =
     [ST_drive
        (if isComboModeActive 1 (kill_ch1a i) (kill_ch2a i) (kill_ch1b i) (kill_ch2b i) then 0
         else applyExpoCurve (mappedDrive_of (pwm i)) expoCurve speedLimit),
      ST_turn
        (if isComboModeActive 1 (kill_ch1a i) (kill_ch2a i) (kill_ch1b i) (kill_ch2b i) then 0
         else if mappedTurn_of (pwm i) = 0 then 0
         else applyExpoCurve (mappedTurn_of (pwm i)) expoCurve speedLimit)]"
  using assms
  by (simp only: loopManualMode_def Let_def mappedDrive_of_def mappedTurn_of_def)
     (simp add: motorTimeoutMs_def)

text \<open>Drive and turn commands are within \<open>speedLimit\<close>, hence within [-127,127].\<close>

lemma manual_drive_turn_range:
  assumes "\<not> nowMicros i - lastFrameMicros s < frameIntervalMicros"
  shows "\<exists>d t. take 2 (snd (loopManualMode i s)) = [ST_drive d, ST_turn t] \<and>
               \<bar>d\<bar> \<le> speedLimit \<and> \<bar>t\<bar> \<le> speedLimit"
proof -
  have l: "(0::real) \<le> expoCurve" "0 \<le> speedLimit"
    by (simp_all add: expoCurve_def speedLimit_def)
  have d: "\<bar>applyExpoCurve (mappedDrive_of (pwm i)) expoCurve speedLimit\<bar> \<le> speedLimit"
    using mapped_range [of "pwm i"] l by (intro applyExpoCurve_abs_le) simp_all
  have t: "\<bar>applyExpoCurve (mappedTurn_of (pwm i)) expoCurve speedLimit\<bar> \<le> speedLimit"
    using mapped_range [of "pwm i"] l by (intro applyExpoCurve_abs_le) simp_all
  show ?thesis
    unfolding manual_drive_turn_commands [OF assms] using d t l(2) by simp
qed

text \<open>The two held-stick states are the ones Manual Mode reaches from its initial state.\<close>

lemma drive_held_reached:
  "loopManualMode (manual_tick 5000 5 1500 2000 1500) manual_init =
     (drive_held, [ST_drive 25, ST_turn 0])"
  by (simp only: loopManualMode_def Let_def) (simp add: manual_simps drive_held_def)

lemma turn_held_reached:
  "loopManualMode (manual_tick 5000 5 2000 1500 1500) manual_init =
     (turn_held, [ST_drive 0, ST_turn 25])"
  by (simp only: loopManualMode_def Let_def) (simp add: manual_simps turn_held_def)

text \<open>
  Every tick that passes the frame limiter stamps the drive command with the current
  time before the timeout is tested, so the test for the drive axis compares 0 with
  \<open>motorTimeoutMs\<close>.
\<close>

lemma manual_drive_always_fresh:
  "\<not> nowMicros i - lastFrameMicros s < frameIntervalMicros \<Longrightarrow>
   lastDriveCommandTime (fst (loopManualMode i s)) = now i"
  by (simp only: loopManualMode_def Let_def) simp

text \<open>
  Claim C2: when no fresh drive command has been computed for longer than
  \<open>motorTimeoutMs\<close>, the drive output of the next tick is 0 whatever the last computed
  value was, and likewise for the turn axis. The code at the failing input: the last drive
  command (25) was computed at 5 ms; the next tick runs at 1005 ms, 1000 ms later, with the
  drive channel still reading 2000; the tick sends drive 25. The same for the turn axis.
\<close>

theorem C2_stale_drive_is_sent:
  "motorTimeoutMs < now (manual_tick 1005000 1005 1500 2000 1500) - lastDriveCommandTime drive_held \<and>
   snd (loopManualMode (manual_tick 1005000 1005 1500 2000 1500) drive_held) =
     [ST_drive 25, ST_turn 0] \<and>
   motorTimeoutMs < now (manual_tick 1005000 1005 2000 1500 1500) - lastTurnCommandTime turn_held \<and>
   snd (loopManualMode (manual_tick 1005000 1005 2000 1500 1500) turn_held) =
     [ST_drive 0, ST_turn 25]"
  by (simp only: loopManualMode_def Let_def) (simp add: manual_simps drive_held_def turn_held_def)

text \<open>
  Claim C9: every command forwarded to the motor controllers is within its range, drive
  and turn within [-127,127] and dome within [-100,100], for every stick input. The code at
  the failing input: from the initial state, the dome stick fully right (2000) sends the
  dome command 156, fully left (1000) sends -156: the expo curve's result 78 is multiplied
  by \<open>fineControlMultiplier\<close> after \<open>domeSpeedLimit\<close> was applied.
\<close>

theorem C9_dome_command_156:
  "snd (loopManualMode (manual_tick 5000 5 1500 1500 2000) manual_init) =
     [ST_drive 0, ST_turn 0, DomeMotor 156] \<and>
   snd (loopManualMode (manual_tick 5000 5 1500 1500 1000) manual_init) =
     [ST_drive 0, ST_turn 0, DomeMotor (- 156)]"
  by (simp only: loopManualMode_def Let_def) (simp add: manual_simps)

section \<open>Automation Scheduler: properties\<close>

subsection \<open>The rate of a move\<close>

text \<open>
  For a locked speed from 25 to 32 the scale factor \<open>(30 / speed) ^ 1.4\<close> is at least
  \<open>(15/16)\<^sup>2\<close>, so a return move takes at least one millisecond per degree.
\<close>

lemma scale_lower:
  assumes "minSpeed \<le> sp" "sp \<le> maxSpeed"
  shows "225 / 256 \<le> c_pow (real_of_int baseSpeed / real_of_int sp) curveFactor"
proof -
  let ?r = "real_of_int baseSpeed / real_of_int sp"
  have sp: "25 \<le> sp" "sp \<le> 32" using assms by (simp_all add: minSpeed_def maxSpeed_def)
  then have spr: "25 \<le> real_of_int sp" "real_of_int sp \<le> 32" by simp_all
  have r: "15 / 16 \<le> ?r" using spr by (simp add: baseSpeed_def field_simps)
  have cp: "c_pow ?r curveFactor = ?r powr (14 / 10)" by (simp add: c_pow_def curveFactor_def)
  show ?thesis
  proof (cases "1 \<le> ?r")
    case True
    then have "1 \<le> ?r powr (14 / 10)" by (simp add: ge_one_powr_ge_zero)
    then show ?thesis using cp by simp
  next
    case False
    then have le1: "?r \<le> 1" by simp
    have pos: "0 \<le> ?r" using spr by (simp add: baseSpeed_def)
    have rpos: "0 < ?r" using spr by (simp add: baseSpeed_def)
    have "(225 / 256 :: real) = (15 / 16) ^ 2" by (simp add: power2_eq_square)
    also have "\<dots> \<le> ?r ^ 2" using r by (intro power_mono) simp_all
    also have "\<dots> = ?r powr 2" using rpos by (simp add: powr_numeral)
    also have "\<dots> \<le> ?r powr (14 / 10)" by (rule powr_mono' [OF _ pos le1]) simp
    finally show ?thesis by (simp only: cp)
  qed
qed

lemma return_rate_ge_one:
  assumes "minSpeed \<le> sp" "sp \<le> maxSpeed"
  shows "1 \<le> returnMsPerDegree sp"
proof -
  have "1 \<le> (1700 / 90) * (225 / 256 :: real)" by simp
  also have "\<dots> \<le> (1700 / 90) * c_pow (real_of_int baseSpeed / real_of_int sp) curveFactor"
    using scale_lower [OF assms] by simp
  finally show ?thesis by (simp add: returnMsPerDegree_def baseMsPerDegree_def)
qed

lemma returnMsPerDegree_base: "returnMsPerDegree 30 = 1700 / 90"
  by (simp add: returnMsPerDegree_def baseMsPerDegree_def baseSpeed_def c_pow_def curveFactor_def)

subsection \<open>Offset tracking\<close>

text \<open>
  A return move over \<open>|k|\<close> degrees at a rate of at least 1 ms per degree brings the
  integer offset \<open>k\<close> to exactly 0: the duration is truncated to whole milliseconds, the
  angle it stands for falls short of \<open>|k|\<close> by less than one degree, and the conversion of
  the sum to \<open>int\<close> discards that remainder.
\<close>

lemma return_lands_on_zero:
  assumes "1 \<le> adj"
  shows "c_trunc (real_of_int k + real_of_int (if k \<ge> 0 then - 1 else 1) *
           (real_of_int (c_trunc (\<bar>real_of_int k\<bar> * adj)) / adj)) = 0"
proof -
  have adj: "0 < adj" using assms by simp
  let ?m = "\<bar>real_of_int k\<bar>"
  have m0: "0 \<le> ?m * adj" using adj by simp
  then have ct: "c_trunc (?m * adj) = \<lfloor>?m * adj\<rfloor>" by (simp add: c_trunc_def)
  have lo: "real_of_int \<lfloor>?m * adj\<rfloor> \<le> ?m * adj" by simp
  have hi: "?m * adj < real_of_int \<lfloor>?m * adj\<rfloor> + 1" by linarith
  have q1: "real_of_int \<lfloor>?m * adj\<rfloor> / adj \<le> ?m"
    using lo adj by (simp add: field_simps)
  have "?m * adj - adj < real_of_int \<lfloor>?m * adj\<rfloor>" using hi assms by linarith
  then have q2: "?m - 1 < real_of_int \<lfloor>?m * adj\<rfloor> / adj"
    using adj by (simp add: field_simps)
  show ?thesis
  proof (cases "k \<ge> 0")
    case True
    then have "?m = real_of_int k" by simp
    with q1 q2 have b: "0 \<le> real_of_int k - real_of_int \<lfloor>?m * adj\<rfloor> / adj"
      "real_of_int k - real_of_int \<lfloor>?m * adj\<rfloor> / adj < 1" by linarith+
    then have "\<lfloor>real_of_int k - real_of_int \<lfloor>?m * adj\<rfloor> / adj\<rfloor> = 0" by linarith
    then show ?thesis using True ct b(1) by (simp add: c_trunc_def)
  next
    case False
    then have "?m = - real_of_int k" by simp
    with q1 q2 have b: "real_of_int k + real_of_int \<lfloor>?m * adj\<rfloor> / adj \<le> 0"
      "- 1 < real_of_int k + real_of_int \<lfloor>?m * adj\<rfloor> / adj" by linarith+
    then have "\<lceil>real_of_int k + real_of_int \<lfloor>?m * adj\<rfloor> / adj\<rceil> = 0" by linarith
    moreover have "\<lfloor>real_of_int k + real_of_int \<lfloor>?m * adj\<rfloor> / adj\<rfloor> = 0"
      if "0 \<le> real_of_int k + real_of_int \<lfloor>?m * adj\<rfloor> / adj"
      using that b by linarith
    ultimately show ?thesis using False ct by (simp add: c_trunc_def)
  qed
qed

text \<open>A free move of \<open>a\<close> degrees from offset 0 leaves an offset of at most \<open>a\<close>.\<close>

lemma free_move_within_angle:
  assumes "0 < adj" "0 \<le> a" "d = 1 \<or> d = - 1"
  shows "\<bar>c_trunc (real_of_int 0 + real_of_int d *
           (real_of_int (c_trunc (real_of_int a * adj)) / adj))\<bar> \<le> a"
proof -
  have m0: "0 \<le> real_of_int a * adj" using assms by simp
  then have ct: "c_trunc (real_of_int a * adj) = \<lfloor>real_of_int a * adj\<rfloor>"
    by (simp add: c_trunc_def)
  let ?q = "real_of_int \<lfloor>real_of_int a * adj\<rfloor> / adj"
  have q0: "0 \<le> ?q" using m0 assms(1) by simp
  have q1: "?q \<le> real_of_int a" using assms(1) by (simp add: field_simps)
  have p: "0 \<le> \<lfloor>?q\<rfloor>" "\<lfloor>?q\<rfloor> \<le> a"
    using q0 q1 by (simp_all add: floor_le_iff le_floor_iff)
  have n: "- a \<le> \<lceil>- ?q\<rceil>" "\<lceil>- ?q\<rceil> \<le> 0"
    using q0 q1 by (simp_all add: ceiling_le_iff le_ceiling_iff)
  show ?thesis
    using assms(3) p n q0 ct by (auto simp: c_trunc_def)
qed

subsection \<open>The move that is started\<close>

lemma startDomeMove_return:
  assumes sp: "sp = (if \<not> sequenceStarted s then rnd_speed r else sequenceSpeed s)"
    and lo: "minSpeed \<le> sp" and hi: "sp \<le> maxSpeed"
    and ret: "movesBeforeCenter \<le> moveCount s \<or> 1 / 2 < \<bar>real_of_int (domeOffset s)\<bar>"
  shows "startDomeMove r t s =
           (s\<lparr>lastMoveTime := t,
              nextMoveDelay := word_of_int (rnd_delay r),
              sequenceSpeed := sp,
              sequenceStarted := False,
              moveCount := 0,
              domeOffset := 0,
              domeEndTime := t + word_of_int \<lfloor>\<bar>real_of_int (domeOffset s)\<bar> * returnMsPerDegree sp\<rfloor>,
              domeDirection := (if 0 \<le> domeOffset s then - 1 else 1),
              currentDomeSpeed_auto := sp,
              domeMoving := True\<rparr>,
            [DomeMotor ((if 0 \<le> domeOffset s then - 1 else 1) * sp)])"
proof -
  have adj: "1 \<le> returnMsPerDegree sp" by (rule return_rate_ge_one [OF lo hi])
  have nn: "0 \<le> \<bar>real_of_int (domeOffset s)\<bar> * returnMsPerDegree sp" using adj by simp
  have ct: "c_trunc (\<bar>real_of_int (domeOffset s)\<bar> * returnMsPerDegree sp) =
            \<lfloor>\<bar>real_of_int (domeOffset s)\<bar> * returnMsPerDegree sp\<rfloor>"
    using nn by (simp add: c_trunc_def)
  note z = return_lands_on_zero [OF adj, of "domeOffset s"]
  have ret': "movesBeforeCenter \<le> moveCount s \<or> 0.5 < \<bar>real_of_int (domeOffset s)\<bar>"
    using ret by simp
  show ?thesis
    unfolding startDomeMove_def Let_def sp [symmetric] returnMsPerDegree_def [symmetric]
    using ret' z ct by (simp del: of_int_abs)
qed

lemma startDomeMove_free_offset:
  assumes nret: "\<not> (movesBeforeCenter \<le> moveCount s \<or> 1 / 2 < \<bar>real_of_int (domeOffset s)\<bar>)"
    and lo: "minSpeed \<le> (if \<not> sequenceStarted s then rnd_speed r else sequenceSpeed s)"
    and hi: "(if \<not> sequenceStarted s then rnd_speed r else sequenceSpeed s) \<le> maxSpeed"
    and a0: "0 \<le> rnd_angle r"
  shows "\<bar>domeOffset (fst (startDomeMove r t s))\<bar> \<le> rnd_angle r"
proof -
  let ?sp = "if \<not> sequenceStarted s then rnd_speed r else sequenceSpeed s"
  have k0: "domeOffset s = 0" using nret by simp linarith
  have adj: "1 \<le> returnMsPerDegree ?sp" by (rule return_rate_ge_one [OF lo hi])
  have up: "0 < returnMsPerDegree ?sp * 1.06" and dn: "0 < returnMsPerDegree ?sp * 0.96"
    using adj by simp_all
  have nret': "\<not> movesBeforeCenter \<le> moveCount s" "\<not> 0.5 < \<bar>real_of_int (domeOffset s)\<bar>"
    using nret by simp_all
  show ?thesis
  proof (cases "rnd_dir r = 0")
    case True
    from free_move_within_angle [OF dn a0, of "- 1"] show ?thesis
      unfolding startDomeMove_def Let_def returnMsPerDegree_def [symmetric]
      using nret' k0 True by (simp del: of_int_abs)
  next
    case False
    from free_move_within_angle [OF up a0, of 1] show ?thesis
      unfolding startDomeMove_def Let_def returnMsPerDegree_def [symmetric]
      using nret' k0 False by (simp del: of_int_abs)
  qed
qed

lemma startDomeMove_speed:
  "sequenceSpeed (fst (startDomeMove r t s)) =
     (if \<not> sequenceStarted s then rnd_speed r else sequenceSpeed s)"
  by (simp add: startDomeMove_def Let_def)

subsection \<open>The invariant\<close>

lemma startDomeMove_inv:
  assumes inv: "dome_inv M s"
    and r: "minSpeed \<le> rnd_speed r" "rnd_speed r \<le> maxSpeed" "0 \<le> rnd_angle r" "rnd_angle r \<le> M"
  shows "dome_inv M (fst (startDomeMove r t s))"
proof -
  let ?sp = "if \<not> sequenceStarted s then rnd_speed r else sequenceSpeed s"
  have lo: "minSpeed \<le> ?sp" and hi: "?sp \<le> maxSpeed"
    using inv r by (simp_all add: dome_inv_def)
  have M0: "0 \<le> M" using r by simp
  show ?thesis
  proof (cases "movesBeforeCenter \<le> moveCount s \<or> 1 / 2 < \<bar>real_of_int (domeOffset s)\<bar>")
    case True
    from startDomeMove_return [OF refl lo hi True, of t] show ?thesis
      using lo hi M0 by (simp add: dome_inv_def)
  next
    case False
    from startDomeMove_free_offset [OF False lo hi r(3), of t] show ?thesis
      using lo hi r(4) by (simp add: dome_inv_def startDomeMove_speed)
  qed
qed

lemma runDomeAutomation_Automated_inv:
  assumes "dome_inv domeMaxAngle s" "rnd_ok_Automated r"
  shows "dome_inv domeMaxAngle (fst (runDomeAutomation_Automated r t s))"
proof -
  have r: "minSpeed \<le> rnd_speed r" "rnd_speed r \<le> maxSpeed" "0 \<le> rnd_angle r"
    "rnd_angle r \<le> domeMaxAngle"
    using assms(2) by (simp_all add: rnd_ok_Automated_def domeMinAngle_def)
  from startDomeMove_inv [OF assms(1) r, of t] show ?thesis
    using assms(1)
    by (simp add: runDomeAutomation_Automated_def dome_inv_def case_prod_beta)
qed

lemma runDomeAutomation_Hybrid_inv:
  assumes "dome_inv domeMaxAngleDeg s" "rnd_ok_Hybrid r"
  shows "dome_inv domeMaxAngleDeg (fst (runDomeAutomation_Hybrid r t s))"
proof -
  have r: "minSpeed \<le> rnd_speed r" "rnd_speed r \<le> maxSpeed" "0 \<le> rnd_angle r"
    "rnd_angle r \<le> domeMaxAngleDeg"
    using assms(2) by (simp_all add: rnd_ok_Hybrid_def domeMinAngleDeg_def)
  from startDomeMove_inv [OF assms(1) r, of t] show ?thesis
    using assms(1)
    by (simp add: runDomeAutomation_Hybrid_def dome_inv_def)
qed

lemma runAutoMP3_inv:
  "dome_inv M (fst (runAutoMP3_Automated r t b s)) = dome_inv M s"
  "dome_inv M (fst (runAutoMP3_Hybrid r t b s)) = dome_inv M s"
  by (simp_all add: runAutoMP3_Automated_def runAutoMP3_Hybrid_def dome_inv_def)

lemma loopAutomatedMode_inv:
  assumes "dome_inv domeMaxAngle s" "rnd_ok_Automated (rnd i)"
  shows "dome_inv domeMaxAngle (fst (loopAutomatedMode i s))"
proof -
  let ?k = "isComboModeActive 2 (auto_ch1a i) (auto_ch2a i) (auto_ch1b i) (auto_ch2b i)"
  let ?s0 = "if ?k \<noteq> lastKillState_auto s then s\<lparr>lastKillState_auto := ?k\<rparr> else s"
  have s0: "dome_inv domeMaxAngle ?s0" using assms(1) by (simp add: dome_inv_def)
  from runDomeAutomation_Automated_inv [OF s0 assms(2), of "millis_dome i"]
  show ?thesis
    using s0
    by (auto simp: loopAutomatedMode_def Let_def runAutoMP3_inv case_prod_beta split: if_splits)
qed

lemma loopHybridMode_automation_inv:
  assumes "dome_inv domeMaxAngleDeg s" "rnd_ok_Hybrid (rnd i)"
  shows "dome_inv domeMaxAngleDeg (fst (loopHybridMode_automation i s))"
proof -
  let ?k = "isComboModeActive 3 (auto_ch1a i) (auto_ch2a i) (auto_ch1b i) (auto_ch2b i)"
  let ?s0 = "if ?k \<noteq> lastKillState_auto s then s\<lparr>lastKillState_auto := ?k\<rparr> else s"
  have s0: "dome_inv domeMaxAngleDeg ?s0" using assms(1) by (simp add: dome_inv_def)
  from runDomeAutomation_Hybrid_inv [OF s0 assms(2), of "millis_dome i"]
  show ?thesis
    using s0
    by (auto simp: loopHybridMode_automation_def Let_def runAutoMP3_inv case_prod_beta
        split: if_splits)
qed

lemma automated_run_inv:
  "dome_inv domeMaxAngle s \<Longrightarrow> list_all (\<lambda>i. rnd_ok_Automated (rnd i)) is \<Longrightarrow>
   dome_inv domeMaxAngle (fst (automated_run is s))"
proof (induction "is" arbitrary: s)
  case Nil
  then show ?case by simp
next
  case (Cons i "is")
  from Cons.prems have "dome_inv domeMaxAngle (fst (loopAutomatedMode i s))"
    by (simp add: loopAutomatedMode_inv)
  with Cons show ?case by (simp add: case_prod_beta)
qed

lemma hybrid_run_inv:
  "dome_inv domeMaxAngleDeg s \<Longrightarrow> list_all (\<lambda>i. rnd_ok_Hybrid (rnd i)) is \<Longrightarrow>
   dome_inv domeMaxAngleDeg (fst (hybrid_run is s))"
proof (induction "is" arbitrary: s)
  case Nil
  then show ?case by simp
next
  case (Cons i "is")
  from Cons.prems have "dome_inv domeMaxAngleDeg (fst (loopHybridMode_automation i s))"
    by (simp add: loopHybridMode_automation_inv)
  with Cons show ?case by (simp add: case_prod_beta)
qed

lemma auto_init_inv:
  "dome_inv domeMaxAngle (auto_init t)" "dome_inv domeMaxAngleDeg (auto_init t)"
  by (simp_all add: dome_inv_def auto_init_def baseSpeed_def minSpeed_def maxSpeed_def
      domeMaxAngle_def domeMaxAngleDeg_def)

subsection \<open>Correction moves\<close>

text \<open>
  Claim C4: in every state of the scheduler in which a move is due and the swing count has
  reached the threshold or the absolute offset exceeds the epsilon (0.5), the move issued
  is the correction move: direction opposite to the sign of the offset, angle equal to the
  absolute offset (at the unmodified rate), swing count reset, sequence speed unlocked, and
  the offset after it is 0. Both files' \<open>runDomeAutomation\<close> do exactly that. The state is
  any one with a locked speed in the range \<open>random\<close> draws from.
\<close>

theorem C4_correction_move:
  assumes inv: "dome_inv M s"
    and rs: "minSpeed \<le> rnd_speed r" "rnd_speed r \<le> maxSpeed"
    and due: "move_due t s"
    and thr: "movesBeforeCenter \<le> moveCount s \<or> 1 / 2 < \<bar>real_of_int (domeOffset s)\<bar>"
  shows "runDomeAutomation_Automated r t s = spec_correction_move r t s \<and>
         runDomeAutomation_Hybrid r t s = spec_correction_move r t s \<and>
         domeOffset (fst (runDomeAutomation_Automated r t s)) = 0 \<and>
         domeOffset (fst (runDomeAutomation_Hybrid r t s)) = 0"
proof -
  let ?sp = "if \<not> sequenceStarted s then rnd_speed r else sequenceSpeed s"
  have lo: "minSpeed \<le> ?sp" and hi: "?sp \<le> maxSpeed"
    using inv rs by (simp_all add: dome_inv_def)
  note m = startDomeMove_return [OF refl lo hi thr, of t]
  have d: "\<not> domeMoving s" "\<not> t - lastMoveTime s < nextMoveDelay s"
    "\<not> t - modeEntryTime s < modeDelayMillis" "\<not> t - modeEntryTime s < 3000"
    using due by (simp_all add: move_due_def modeDelayMillis_def not_less)
  have sp: "spec_correction_move r t s = startDomeMove r t s"
    unfolding m by (simp add: spec_correction_move_def Let_def)
  have a: "runDomeAutomation_Automated r t s = startDomeMove r t s"
    using d by (simp add: runDomeAutomation_Automated_def m)
  have h: "runDomeAutomation_Hybrid r t s = startDomeMove r t s"
    using d by (simp add: runDomeAutomation_Hybrid_def)
  have z: "domeOffset (fst (startDomeMove r t s)) = 0"
    by (simp add: m)
  show ?thesis
    by (simp only: a h sp z)
qed

text \<open>
  Witness for C4: one swing made, offset 17, speed 30 locked, move due at 20000 ms. The
  correction runs left at speed 30 for 321 ms (17 degrees at 1700/90 ms per degree).
\<close>

theorem C4_correction_move_witness:
  "dome_inv domeMaxAngle swung_state \<and>
   minSpeed \<le> rnd_speed rnd_sample \<and> rnd_speed rnd_sample \<le> maxSpeed \<and>
   move_due 20000 swung_state \<and>
   1 / 2 < \<bar>real_of_int (domeOffset swung_state)\<bar> \<and>
   snd (runDomeAutomation_Automated rnd_sample 20000 swung_state) = [DomeMotor (- 30)] \<and>
   snd (runDomeAutomation_Hybrid rnd_sample 20000 swung_state) = [DomeMotor (- 30)] \<and>
   domeEndTime (fst (runDomeAutomation_Automated rnd_sample 20000 swung_state)) = 20321 \<and>
   moveCount (fst (runDomeAutomation_Automated rnd_sample 20000 swung_state)) = 0 \<and>
   \<not> sequenceStarted (fst (runDomeAutomation_Automated rnd_sample 20000 swung_state)) \<and>
   domeOffset (fst (runDomeAutomation_Automated rnd_sample 20000 swung_state)) = 0"
proof -
  have inv: "dome_inv domeMaxAngle swung_state"
    by (simp add: dome_inv_def swung_state_def auto_init_def baseSpeed_def minSpeed_def
        maxSpeed_def domeMaxAngle_def)
  have rs: "minSpeed \<le> rnd_speed rnd_sample" "rnd_speed rnd_sample \<le> maxSpeed"
    by (simp_all add: rnd_sample_def minSpeed_def maxSpeed_def)
  have due: "move_due 20000 swung_state"
    by (simp add: move_due_def swung_state_def auto_init_def modeDelayMillis_def)
  have thr: "1 / 2 < \<bar>real_of_int (domeOffset swung_state)\<bar>"
    by (simp add: swung_state_def)
  have ev: "spec_correction_move rnd_sample 20000 swung_state =
      (swung_state\<lparr>lastMoveTime := 20000, nextMoveDelay := 9000, sequenceSpeed := 30,
         sequenceStarted := False, moveCount := 0, domeOffset := 0, domeEndTime := 20321,
         domeDirection := - 1, currentDomeSpeed_auto := 30, domeMoving := True\<rparr>,
       [DomeMotor (- 30)])"
    by (simp add: spec_correction_move_def Let_def swung_state_def auto_init_def rnd_sample_def
        baseSpeed_def returnMsPerDegree_base)
  from C4_correction_move [OF inv rs due disjI2 [OF thr]] show ?thesis
    using inv rs due thr by (simp add: ev)
qed

subsection \<open>Boundedness of the offset\<close>

text \<open>
  Claim C5: over every run of the scheduler, however long, the accumulated dome offset
  stays within a fixed bound given by the largest free-move angle: 45 degrees in Automated
  Mode, 90 degrees in Hybrid Mode. The run starts from the state after setup; the times,
  the kill and suppression inputs are arbitrary, and \<open>random\<close> keeps its contract.
\<close>

theorem C5_offset_bounded:
  assumes "list_all (\<lambda>i. rnd_ok_Automated (rnd i)) as"
    and "list_all (\<lambda>i. rnd_ok_Hybrid (rnd i)) hs"
  shows "\<bar>domeOffset (fst (automated_run as (auto_init t)))\<bar> \<le> domeMaxAngle \<and>
         \<bar>domeOffset (fst (hybrid_run hs (auto_init t)))\<bar> \<le> domeMaxAngleDeg"
  using automated_run_inv [OF auto_init_inv(1) assms(1), of t]
    hybrid_run_inv [OF auto_init_inv(2) assms(2), of t]
  by (simp add: dome_inv_def)

text \<open>Witness for C5: a run of three ticks, at 20000, 20400 and 30000 ms.\<close>

theorem C5_offset_bounded_witness:
  "list_all (\<lambda>i. rnd_ok_Automated (rnd i))
     [auto_tick 20000 1500 False rnd_sample, auto_tick 20400 1500 False rnd_sample,
      auto_tick 30000 1500 False rnd_sample] \<and>
   list_all (\<lambda>i. rnd_ok_Hybrid (rnd i))
     [auto_tick 20000 1500 False rnd_sample, auto_tick 20400 1500 False rnd_sample,
      auto_tick 30000 1500 False rnd_sample] \<and>
   \<bar>domeOffset (fst (automated_run
       [auto_tick 20000 1500 False rnd_sample, auto_tick 20400 1500 False rnd_sample,
        auto_tick 30000 1500 False rnd_sample] (auto_init 0)))\<bar> \<le> domeMaxAngle \<and>
   \<bar>domeOffset (fst (hybrid_run
       [auto_tick 20000 1500 False rnd_sample, auto_tick 20400 1500 False rnd_sample,
        auto_tick 30000 1500 False rnd_sample] (auto_init 0)))\<bar> \<le> domeMaxAngleDeg"
proof -
  have a: "list_all (\<lambda>i. rnd_ok_Automated (rnd i))
     [auto_tick 20000 1500 False rnd_sample, auto_tick 20400 1500 False rnd_sample,
      auto_tick 30000 1500 False rnd_sample]"
    by (simp add: rnd_ok_Automated_def auto_tick_def rnd_sample_def minSpeed_def maxSpeed_def
        domeMinAngle_def domeMaxAngle_def)
  have h: "list_all (\<lambda>i. rnd_ok_Hybrid (rnd i))
     [auto_tick 20000 1500 False rnd_sample, auto_tick 20400 1500 False rnd_sample,
      auto_tick 30000 1500 False rnd_sample]"
    by (simp add: rnd_ok_Hybrid_def auto_tick_def rnd_sample_def minSpeed_def maxSpeed_def
        domeMinAngleDeg_def domeMaxAngleDeg_def)
  from C5_offset_bounded [OF a h, of 0] a h show ?thesis by blast
qed

subsection \<open>Kill condition and moves in flight\<close>

lemmas auto_simps = auto_tick_def rnd_sample_def auto_init_def move_in_flight_def
  runDomeAutomation_Automated_def runDomeAutomation_Hybrid_def runAutoMP3_Automated_def
  runAutoMP3_Hybrid_def pickTrack_def isComboModeActive_def modeDelayMillis_def
  baseSpeed_def baseMsPerDegree_def curveFactor_def movesBeforeCenter_def c_pow_def c_trunc_def
  COMBO_DOWN_MIN_def COMBO_DOWN_MAX_def COMBO_UP_MIN_def COMBO_UP_MAX_def
  COMBO_LEFT_MAX_def COMBO_RIGHT_MIN_def

lemma startDomeMove_sample:
  "startDomeMove rnd_sample 20000 (auto_init 0) =
     ((auto_init 0)\<lparr>lastMoveTime := 20000, nextMoveDelay := 9000, sequenceSpeed := 30,
        sequenceStarted := True, moveCount := 1, domeOffset := 19, domeEndTime := 20400,
        domeDirection := 1, currentDomeSpeed_auto := 30, domeMoving := True\<rparr>,
      [DomeMotor 30])"
  by (simp only: startDomeMove_def Let_def) (simp add: auto_simps)

text \<open>The state with a move in flight is the one Automated Mode reaches with its first move.\<close>

lemma move_in_flight_reached:
  "loopAutomatedMode (auto_tick 20000 1500 False rnd_sample) (auto_init 0) =
     (move_in_flight, [DomeMotor 30, MP3_trigger 7])"
proof -
  have "runDomeAutomation_Automated rnd_sample 20000 (auto_init 0) =
     ((auto_init 0)\<lparr>lastMoveTime := 20000, nextMoveDelay := 9000, sequenceSpeed := 30,
        sequenceStarted := True, moveCount := 1, domeOffset := 19, domeEndTime := 20400,
        domeDirection := 1, currentDomeSpeed_auto := 30, domeMoving := True,
        lastMoveDirection := 1\<rparr>, [DomeMotor 30])"
    unfolding runDomeAutomation_Automated_def startDomeMove_sample
    by (simp add: auto_init_def modeDelayMillis_def)
  then show ?thesis
    unfolding loopAutomatedMode_def Let_def
    by (simp add: auto_tick_def isComboModeActive_def COMBO_DOWN_MIN_def COMBO_DOWN_MAX_def
        COMBO_UP_MIN_def COMBO_UP_MAX_def COMBO_LEFT_MAX_def COMBO_RIGHT_MIN_def)
       (simp add: auto_init_def rnd_sample_def runAutoMP3_Automated_def pickTrack_def
        move_in_flight_def)
qed

text \<open>While the kill condition is held, Automated Mode sends no command at all.\<close>

lemma loopAutomatedMode_killed:
  "isComboModeActive 2 (auto_ch1a i) (auto_ch2a i) (auto_ch1b i) (auto_ch2b i) \<Longrightarrow>
   snd (loopAutomatedMode i s) = [] \<and>
   domeMoving (fst (loopAutomatedMode i s)) = domeMoving s \<and>
   domeEndTime (fst (loopAutomatedMode i s)) = domeEndTime s"
  by (simp add: loopAutomatedMode_def Let_def)

text \<open>
  Claim C3: when the kill condition becomes active while a timed dome move is in flight,
  the move's command is not altered, the move runs to its scheduled end, the stop command
  is issued when the end time is reached, and only the next move or audio trigger is
  suppressed. The code at the failing input: a move is in flight and ends at 20400 ms.
  Without kill the tick at 20400 ms sends the stop command. With kill held, the ticks at
  20400 ms and at 40000 ms send nothing and leave the move in flight; the stop command is
  sent by the first tick after the release, here at 40020 ms.
\<close>

theorem C3_kill_withholds_stop:
  "domeMoving move_in_flight \<and> domeEndTime move_in_flight = 20400 \<and>
   snd (loopAutomatedMode (auto_tick 20400 1500 False rnd_sample) move_in_flight) = [DomeMotor 0] \<and>
   loopAutomatedMode (auto_tick 20400 1000 False rnd_sample) move_in_flight =
     (move_in_flight\<lparr>lastKillState_auto := True\<rparr>, []) \<and>
   loopAutomatedMode (auto_tick 40000 1000 False rnd_sample)
       (move_in_flight\<lparr>lastKillState_auto := True\<rparr>) =
     (move_in_flight\<lparr>lastKillState_auto := True\<rparr>, []) \<and>
   snd (loopAutomatedMode (auto_tick 40020 1500 False rnd_sample)
          (move_in_flight\<lparr>lastKillState_auto := True\<rparr>)) = [DomeMotor 0]"
  by (simp add: loopAutomatedMode_def Let_def auto_simps)

subsection \<open>Audio cadence and suppression\<close>

text \<open>
  In AutomatedMode.cpp a due cadence is rescheduled whether or not audio is suppressed,
  and a suppressed firing submits no track.
\<close>

lemma runAutoMP3_Automated_skip:
  "nextMP3Delay s < t - lastMP3Time s \<Longrightarrow>
   runAutoMP3_Automated r t True s =
     (s\<lparr>lastMP3Time := t, nextMP3Delay := word_of_int (rnd_mp3_delay r)\<rparr>, []) \<and>
   fst (runAutoMP3_Automated r t False s) = fst (runAutoMP3_Automated r t True s)"
  by (simp add: runAutoMP3_Automated_def)

text \<open>In HybridMode.cpp a suppressed call changes nothing, whether the cadence is due or not.\<close>

lemma runAutoMP3_Hybrid_suppressed: "runAutoMP3_Hybrid r t True s = (s, [])"
  by (simp add: runAutoMP3_Hybrid_def)

text \<open>
  Claim C8: when the audio cadence becomes due while the suppression flag is set, the
  trigger is skipped (no track submitted, nothing queued or retried) and the next random
  interval is still rescheduled, as on a firing that is not suppressed. The code at the
  failing input: in Hybrid Mode the cadence is due at 20000 ms with the flag set; the call
  leaves \<open>lastMP3Time\<close> and \<open>nextMP3Delay\<close> as they were, and the call 20 ms later with the
  flag cleared submits track 7 at once. In Automated Mode the same two calls reschedule at
  20000 ms and submit nothing at 20020 ms.
\<close>

theorem C8_hybrid_skip_not_rescheduled:
  "runAutoMP3_Hybrid rnd_sample 20000 True (auto_init 0) = (auto_init 0, []) \<and>
   runAutoMP3_Hybrid rnd_sample 20020 False (auto_init 0) =
     ((auto_init 0)\<lparr>lastMP3Time := 20020, nextMP3Delay := 30000\<rparr>, [MP3_trigger 7]) \<and>
   runAutoMP3_Automated rnd_sample 20000 True (auto_init 0) =
     ((auto_init 0)\<lparr>lastMP3Time := 20000, nextMP3Delay := 30000\<rparr>, []) \<and>
   runAutoMP3_Automated rnd_sample 20020 False
       ((auto_init 0)\<lparr>lastMP3Time := 20000, nextMP3Delay := 30000\<rparr>) =
     ((auto_init 0)\<lparr>lastMP3Time := 20000, nextMP3Delay := 30000\<rparr>, [])"
  by (simp add: auto_simps)

end
